theory Spec2Isabelle
  imports Main "HOL-Library.Word" "HOL-Library.Char_ord" "HOL-Library.List_Lexorder"
begin

section \<open>Byte strings and the encodings the key code uses\<close>

text \<open>
  Go strings are byte strings, so a Go \<open>string\<close> is a \<^typ>\<open>string\<close> here (a list of
  8-bit characters) and a Go \<open>[]byte\<close> is a list of 8-bit words. Identifiers that the
  source holds as \<open>uuid.UUID\<close> are kept in their textual form.
\<close>

type_synonym byte = "8 word"
type_synonym uuid = string

definition string_of_bytes :: "byte list \<Rightarrow> string" where
  "string_of_bytes bs = map (\<lambda>b. char_of (unat b)) bs"

text \<open>\<open>encoding/hex\<close>: \<open>EncodeToString\<close> writes two lower-case digits per byte.\<close>

definition hextable :: string where
  "hextable = ''0123456789abcdef''"

fun hex_EncodeToString :: "byte list \<Rightarrow> string" where
  "hex_EncodeToString [] = []"
| "hex_EncodeToString (b # bs) =
     hextable ! (unat b div 16) # hextable ! (unat b mod 16) # hex_EncodeToString bs"

text \<open>\<open>fromHexChar\<close> accepts both cases; anything else is \<open>InvalidByteError\<close>.\<close>

definition fromHexChar :: "char \<Rightarrow> nat option" where
  "fromHexChar c =
     (let n = (of_char c :: nat) in
      if 48 \<le> n \<and> n \<le> 57 then Some (n - 48)
      else if 97 \<le> n \<and> n \<le> 102 then Some (n - 97 + 10)
      else if 65 \<le> n \<and> n \<le> 70 then Some (n - 65 + 10)
      else None)"

text \<open>
  \<open>hex.DecodeString\<close>: an odd length (\<open>ErrLength\<close>) or a character that is no hex
  digit is an error; callers in this repository only test \<open>err != nil\<close>.
\<close>

fun hex_DecodeString :: "string \<Rightarrow> byte list option" where
  "hex_DecodeString [] = Some []"
| "hex_DecodeString [c] = None"
| "hex_DecodeString (a # b # cs) =
     (case (fromHexChar a, fromHexChar b) of
        (Some h, Some l) \<Rightarrow>
          (case hex_DecodeString cs of
             Some bs \<Rightarrow> Some (of_nat (h * 16 + l) # bs)
           | None \<Rightarrow> None)
      | _ \<Rightarrow> None)"

text \<open>
  \<open>base64.RawURLEncoding\<close>: the URL-safe alphabet, three bytes to four characters,
  and no padding: one trailing byte gives two characters, two trailing bytes three.
\<close>

definition encodeURL :: string where
  "encodeURL = ''ABCDEFGHIJKLMNOPQRSTUVWXYZabcdefghijklmnopqrstuvwxyz0123456789-_''"

fun base64_RawURLEncoding_EncodeToString :: "byte list \<Rightarrow> string" where
  "base64_RawURLEncoding_EncodeToString [] = []"
| "base64_RawURLEncoding_EncodeToString [a] =
     (let v = unat a * 65536 in
      [encodeURL ! (v div 262144 mod 64), encodeURL ! (v div 4096 mod 64)])"
| "base64_RawURLEncoding_EncodeToString [a, b] =
     (let v = unat a * 65536 + unat b * 256 in
      [encodeURL ! (v div 262144 mod 64), encodeURL ! (v div 4096 mod 64),
       encodeURL ! (v div 64 mod 64)])"
| "base64_RawURLEncoding_EncodeToString (a # b # c # rest) =
     (let v = unat a * 65536 + unat b * 256 + unat c in
      encodeURL ! (v div 262144 mod 64) # encodeURL ! (v div 4096 mod 64) #
      encodeURL ! (v div 64 mod 64) # encodeURL ! (v mod 64) #
      base64_RawURLEncoding_EncodeToString rest)"

text \<open>\<open>strings.TrimRight(s, "\x00")\<close> and \<open>strings.HasPrefix(s, "\\x")\<close>.\<close>

definition TrimRight_NUL :: "string \<Rightarrow> string" where
  "TrimRight_NUL s = rev (dropWhile (\<lambda>c. c = CHR 0x00) (rev s))"

definition backslash_x :: string where
  "backslash_x = [CHR 0x5C, CHR ''x'']"

definition HasPrefix :: "string \<Rightarrow> string \<Rightarrow> bool" where
  "HasPrefix s p = (take (length p) s = p)"

section \<open>Credential mint: \<open>keys.Manager.generateAPIKey\<close>\<close>

text \<open>
  \<open>make([]byte, n)\<close> is a buffer of \<open>n\<close> zero bytes. \<open>crypto/rand.Read(b)\<close> either
  fails or overwrites every byte of \<open>b\<close>; the buffer keeps the length \<open>make\<close> gave it.
  The outcome of a call is an argument of the model: \<open>None\<close> for an error, else the
  byte that the call writes at each position.
\<close>

definition make_bytes :: "nat \<Rightarrow> byte list" where
  "make_bytes n = replicate n 0"

definition rand_Read :: "(nat \<Rightarrow> byte) option \<Rightarrow> byte list \<Rightarrow> byte list option" where
  "rand_Read outcome b =
     (case outcome of
        None \<Rightarrow> None
      | Some drawn \<Rightarrow> Some (map drawn [0..<length b]))"

text \<open>The slice expression \<open>s[:n]\<close> panics when \<open>s\<close> has fewer than \<open>n\<close> bytes.\<close>

definition slice_to :: "string \<Rightarrow> nat \<Rightarrow> string option" where
  "slice_to s n = (if n \<le> length s then Some (take n s) else None)"

text \<open>
  \<open>generateAPIKey\<close> returns the tuple \<open>(apiKey, keyHash, salt, keyPrefix)\<close> or an
  error; a panic of the slice expression is an error here too.
\<close>

definition generateAPIKey :: "(nat \<Rightarrow> byte) option \<Rightarrow> (nat \<Rightarrow> byte) option \<Rightarrow>
    string + (string \<times> string \<times> string \<times> string)" where
  "generateAPIKey keyRead saltRead =
     (case rand_Read keyRead (make_bytes 32) of
        None \<Rightarrow> Inl ''failed to generate random key: rand.Read''
      | Some keyBytes \<Rightarrow>
          (let apiKey = base64_RawURLEncoding_EncodeToString keyBytes in
           case slice_to apiKey 8 of
             None \<Rightarrow> Inl ''panic: runtime error: slice bounds out of range''
           | Some keyPrefix \<Rightarrow>
               (case rand_Read saltRead (make_bytes 16) of
                  None \<Rightarrow> Inl ''failed to generate salt: rand.Read''
                | Some saltBytes \<Rightarrow>
                    (let salt = hex_EncodeToString saltBytes;
                         keyHash = apiKey
                     in Inr (apiKey, keyHash, salt, keyPrefix)))))"

section \<open>The relational store of maas-api/v2\<close>

text \<open>
  The Go structs of package \<open>db\<close>. The tables \<open>users\<close>, \<open>teams\<close>,
  \<open>team_memberships\<close>, \<open>models\<close> and \<open>model_grants\<close> have exactly the columns of
  their struct, so a row of those tables is a value of the struct. Timestamps are
  natural numbers (a clock reading).
\<close>

record User =
  User_ID :: uuid
  User_Email :: string
  User_KeycloakUserID :: string
  User_DisplayName :: string
  User_Type :: string

record Team =
  Team_ID :: uuid
  Team_ExtID :: string
  Team_Name :: string
  Team_Description :: string
  Team_RateLimit :: int
  Team_RateWindow :: string
  Team_RateLimitSpec :: string
  Team_CreatedAt :: nat
  Team_UpdatedAt :: nat

record TeamMembership =
  TeamMembership_TeamID :: uuid
  TeamMembership_UserID :: uuid
  TeamMembership_Role :: string

record Model =
  Model_ID :: uuid
  Model_Name :: string
  Model_Provider :: string
  Model_RouteName :: string
  Model_Status :: string

record ModelGrant =
  ModelGrant_ID :: uuid
  ModelGrant_TeamID :: uuid
  ModelGrant_UserID :: "uuid option"
  ModelGrant_ModelID :: uuid
  ModelGrant_Role :: string

record APIKey =
  APIKey_ID :: string
  APIKey_TeamID :: string
  APIKey_UserID :: "string option"
  APIKey_KeyPrefix :: string
  APIKey_KeyHash :: string
  APIKey_Salt :: string
  APIKey_Alias :: string
  APIKey_CreatedAt :: nat

text \<open>
  A row of \<open>api_keys\<close> has more columns than the struct: \<open>hash_alg\<close>, \<open>status\<close>
  (one of \<open>active\<close>, \<open>revoked\<close>, \<open>suspended\<close>) and \<open>expires_at\<close> (\<open>NULL\<close> means
  never). The \<open>salt\<close> column holds bytes; \<open>key_hash\<close> holds the bytes of the string
  that was inserted.
\<close>

record api_key_row =
  ak_id :: uuid
  ak_key_prefix :: string
  ak_key_hash :: string
  ak_hash_alg :: string
  ak_salt :: "byte list"
  ak_team_id :: uuid
  ak_user_id :: "uuid option"
  ak_alias :: string
  ak_status :: string
  ak_expires_at :: "nat option"
  ak_created_at :: nat

record store =
  users :: "User list"
  teams :: "Team list"
  team_memberships :: "TeamMembership list"
  models :: "Model list"
  model_grants :: "ModelGrant list"
  api_keys :: "api_key_row list"

text \<open>
  Two facts about the environment are parameters of the model: \<open>uuid.Parse\<close> of
  \<open>github.com/google/uuid\<close> (the textual form of the identifier, or failure), and what
  a \<open>JSONB\<close> column does with a text (\<open>None\<close> if the database rejects it, else the
  text it gives back when read).
\<close>

record env =
  uuid_Parse :: "string \<Rightarrow> uuid option"
  jsonb :: "string \<Rightarrow> string option"

text \<open>Errors are Go \<open>error\<close> values: the handlers inspect their message text.\<close>

fun Contains :: "string \<Rightarrow> string \<Rightarrow> bool" where
  "Contains [] sub = (sub = [])"
| "Contains (c # cs) sub = (HasPrefix (c # cs) sub \<or> Contains cs sub)"

definition ErrNoRows :: string where
  "ErrNoRows = ''sql: no rows in result set''"

definition unique_violation :: "string \<Rightarrow> string" where
  "unique_violation constraint =
     ''pq: duplicate key value violates unique constraint '' @ [CHR 0x22] @ constraint @ [CHR 0x22]"

definition foreign_key_violation :: "string \<Rightarrow> string \<Rightarrow> string" where
  "foreign_key_violation table constraint =
     ''pq: insert or update on table '' @ [CHR 0x22] @ table @ [CHR 0x22] @
     '' violates foreign key constraint '' @ [CHR 0x22] @ constraint @ [CHR 0x22]"

subsection \<open>Repository: teams\<close>

definition GetTeamByID :: "store \<Rightarrow> uuid \<Rightarrow> string + Team" where
  "GetTeamByID s teamID =
     (case find (\<lambda>t. Team_ID t = teamID) (teams s) of
        None \<Rightarrow> Inl (''team not found with id: '' @ teamID)
      | Some t \<Rightarrow> Inr t)"

definition GetTeamByExtID :: "store \<Rightarrow> string \<Rightarrow> string + Team" where
  "GetTeamByExtID s extID =
     (case find (\<lambda>t. Team_ExtID t = extID) (teams s) of
        None \<Rightarrow> Inl (''failed to get team by ext_id: '' @ ErrNoRows)
      | Some t \<Rightarrow> Inr t)"

text \<open>
  \<open>CreateTeam\<close>: one \<open>INSERT ... RETURNING\<close>. The identifier comes from \<open>uuid.New()\<close>
  and the timestamps from \<open>NOW()\<close>; both are arguments here. The insert fails on the
  primary key, on \<open>UNIQUE (ext_id)\<close>, on \<open>UNIQUE (name)\<close>, when \<open>rate_limit\<close> does not
  fit the \<open>INTEGER\<close> column and when \<open>rate_limit_spec\<close> is no JSON.
\<close>

definition CreateTeam :: "env \<Rightarrow> store \<Rightarrow> uuid \<Rightarrow> nat \<Rightarrow> string \<Rightarrow> string \<Rightarrow> string \<Rightarrow>
    int \<Rightarrow> string \<Rightarrow> string \<Rightarrow> (string + Team) \<times> store" where
  "CreateTeam e s teamUUID now extID name description rateLimit rateWindow rateLimitSpec =
     (let fail = (\<lambda>m. (Inl (''failed to create team: '' @ m), s)) in
      if list_ex (\<lambda>t. Team_ID t = teamUUID) (teams s) then fail (unique_violation ''teams_pkey'')
      else if list_ex (\<lambda>t. Team_ExtID t = extID) (teams s)
        then fail (unique_violation ''teams_ext_id_key'')
      else if list_ex (\<lambda>t. Team_Name t = name) (teams s)
        then fail (unique_violation ''teams_name_key'')
      else if rateLimit < - 2147483648 \<or> 2147483647 < rateLimit
        then fail ''pq: value out of range for type integer''
      else case jsonb e rateLimitSpec of
        None \<Rightarrow> fail ''pq: invalid input syntax for type json''
      | Some spec \<Rightarrow>
          (let team = \<lparr>Team_ID = teamUUID, Team_ExtID = extID, Team_Name = name,
                       Team_Description = description, Team_RateLimit = rateLimit,
                       Team_RateWindow = rateWindow, Team_RateLimitSpec = spec,
                       Team_CreatedAt = now, Team_UpdatedAt = now\<rparr>
           in (Inr team, s\<lparr>teams := teams s @ [team]\<rparr>)))"

text \<open>
  \<open>UpdateTeam\<close>: the \<open>SET\<close> list holds the fields that are not \<open>nil\<close>, and
  \<open>updated_at = NOW()\<close>; no field at all is an error before any SQL runs.
\<close>

definition apply_update :: "string option \<Rightarrow> string option \<Rightarrow> int option \<Rightarrow> string option \<Rightarrow>
    nat \<Rightarrow> Team \<Rightarrow> Team" where
  "apply_update name description rateLimit rateWindow now t =
     t\<lparr>Team_Name := (case name of Some n \<Rightarrow> n | None \<Rightarrow> Team_Name t),
       Team_Description := (case description of Some d \<Rightarrow> d | None \<Rightarrow> Team_Description t),
       Team_RateLimit := (case rateLimit of Some r \<Rightarrow> r | None \<Rightarrow> Team_RateLimit t),
       Team_RateWindow := (case rateWindow of Some w \<Rightarrow> w | None \<Rightarrow> Team_RateWindow t),
       Team_UpdatedAt := now\<rparr>"

definition UpdateTeam :: "env \<Rightarrow> store \<Rightarrow> nat \<Rightarrow> string \<Rightarrow> string option \<Rightarrow> string option \<Rightarrow>
    int option \<Rightarrow> string option \<Rightarrow> (string + Team) \<times> store" where
  "UpdateTeam e s now teamID name description rateLimit rateWindow =
     (case uuid_Parse e teamID of
        None \<Rightarrow> (Inl ''invalid team ID format: invalid UUID'', s)
      | Some teamUUID \<Rightarrow>
          if name = None \<and> description = None \<and> rateLimit = None \<and> rateWindow = None
          then (Inl ''no fields to update'', s)
          else (case find (\<lambda>t. Team_ID t = teamUUID) (teams s) of
            None \<Rightarrow> (Inl (''team not found with id: '' @ teamID), s)
          | Some t \<Rightarrow>
              (let t' = apply_update name description rateLimit rateWindow now t in
               if list_ex (\<lambda>u. Team_ID u \<noteq> teamUUID \<and> Team_Name u = Team_Name t') (teams s)
               then (Inl (''failed to update team: '' @ unique_violation ''teams_name_key''), s)
               else if Team_RateLimit t' < - 2147483648 \<or> 2147483647 < Team_RateLimit t'
               then (Inl ''failed to update team: pq: value out of range for type integer'', s)
               else (Inr t',
                     s\<lparr>teams := map (\<lambda>u. if Team_ID u = teamUUID then t' else u) (teams s)\<rparr>))))"

text \<open>
  \<open>DeleteTeam\<close> is one transaction of four statements: it locks the team row
  (\<open>SELECT ... FOR UPDATE\<close>; no row is the error \<open>team not found\<close>), counts the keys of
  the team, deletes the team row and commits. The foreign keys
  \<open>team_memberships.team_id\<close>, \<open>model_grants.team_id\<close> and \<open>api_keys.team_id\<close> are
  \<open>ON DELETE CASCADE\<close>, so the delete removes their rows too. The second check for
  \<open>sql.ErrNoRows\<close>, after the \<open>DELETE\<close>, cannot fire while the row is locked.

  Between the statements other sessions create credentials. Each such \<open>INSERT INTO
  api_keys\<close> is checked against the constraints of the table and takes a key-share lock
  on the \<open>teams\<close> row it references. That lock conflicts with \<open>FOR UPDATE\<close>: an insert
  for the locked team waits until the transaction ends and runs then. The inserts that
  arrive after the lock, after the count and after the delete are arguments of the
  model.
\<close>

record DeleteTeamResult =
  DeleteTeamResult_TeamID :: uuid
  DeleteTeamResult_ExtID :: string
  DeleteTeamResult_Name :: string
  DeleteTeamResult_CascadedKeyCount :: nat

definition delete_team_cascade :: "uuid \<Rightarrow> store \<Rightarrow> store" where
  "delete_team_cascade teamID s =
     s\<lparr>teams := filter (\<lambda>t. Team_ID t \<noteq> teamID) (teams s),
       team_memberships := filter (\<lambda>m. TeamMembership_TeamID m \<noteq> teamID) (team_memberships s),
       model_grants := filter (\<lambda>g. ModelGrant_TeamID g \<noteq> teamID) (model_grants s),
       api_keys := filter (\<lambda>k. ak_team_id k \<noteq> teamID) (api_keys s)\<rparr>"

definition insert_api_key :: "api_key_row \<Rightarrow> store \<Rightarrow> store" where
  "insert_api_key row s =
     (if list_ex (\<lambda>k. ak_id k = ak_id row) (api_keys s) then s
      else if list_ex (\<lambda>k. ak_key_prefix k = ak_key_prefix row) (api_keys s) then s
      else if list_ex (\<lambda>t. Team_ID t = ak_team_id row) (teams s)
        then s\<lparr>api_keys := api_keys s @ [row]\<rparr>
      else s)"

fun other_sessions :: "uuid option \<Rightarrow> api_key_row list \<Rightarrow> store \<Rightarrow> store \<times> api_key_row list" where
  "other_sessions locked [] s = (s, [])"
| "other_sessions locked (row # rows) s =
     (if locked = Some (ak_team_id row)
      then (case other_sessions locked rows s of (s', waiting) \<Rightarrow> (s', row # waiting))
      else other_sessions locked rows (insert_api_key row s))"

record concurrent_creations =
  after_lock :: "api_key_row list"
  after_count :: "api_key_row list"
  after_delete :: "api_key_row list"

definition alone :: concurrent_creations where
  "alone = \<lparr>after_lock = [], after_count = [], after_delete = []\<rparr>"

text \<open>The store as the \<open>DELETE\<close> statement of the transaction finds it.\<close>

definition store_at_delete :: "store \<Rightarrow> uuid \<Rightarrow> concurrent_creations \<Rightarrow> store" where
  "store_at_delete s teamID others =
     fst (other_sessions (Some teamID) (after_count others)
            (fst (other_sessions (Some teamID) (after_lock others) s)))"

definition DeleteTeam :: "store \<Rightarrow> uuid \<Rightarrow> concurrent_creations \<Rightarrow>
    (string + DeleteTeamResult) \<times> store" where
  "DeleteTeam s teamID others =
     (case find (\<lambda>t. Team_ID t = teamID) (teams s) of
        None \<Rightarrow> (Inl (''team not found with id: '' @ teamID), s)
      | Some team \<Rightarrow>
          (case other_sessions (Some teamID) (after_lock others) s of
             (s1, waiting1) \<Rightarrow>
               (let keyCount = length (filter (\<lambda>k. ak_team_id k = teamID) (api_keys s1)) in
                case other_sessions (Some teamID) (after_count others) s1 of
                  (s2, waiting2) \<Rightarrow>
                    (let s3 = delete_team_cascade teamID s2 in
                     case other_sessions (Some teamID) (after_delete others) s3 of
                       (s4, waiting3) \<Rightarrow>
                         (Inr \<lparr>DeleteTeamResult_TeamID = teamID,
                               DeleteTeamResult_ExtID = Team_ExtID team,
                               DeleteTeamResult_Name = Team_Name team,
                               DeleteTeamResult_CascadedKeyCount = keyCount\<rparr>,
                          fst (other_sessions None (waiting1 @ waiting2 @ waiting3) s4))))))"

subsection \<open>Repository: API keys\<close>

text \<open>
  \<open>CreateAPIKey\<close>. The team reference is a UUID or an external id. The user
  reference, when not empty, is tried as the id of a row of \<open>users\<close> and then as a
  \<open>keycloak_user_id\<close>; a reference that resolves to no user gives a team service key
  (\<open>user_id\<close> is \<open>NULL\<close>). The insert decodes the salt with \<open>decode($4, 'hex')\<close>, and
  fails on the primary key, on \<open>UNIQUE (key_prefix)\<close> and on the foreign key to
  \<open>teams\<close>. The columns the statement does not name take their defaults: \<open>hash_alg\<close>
  is \<open>argon2id\<close>, \<open>status\<close> is \<open>active\<close>, \<open>expires_at\<close> is \<open>NULL\<close>.
\<close>

definition resolve_user :: "env \<Rightarrow> store \<Rightarrow> string \<Rightarrow> uuid option" where
  "resolve_user e s userID =
     (if userID = [] then None
      else
        (let direct = (case uuid_Parse e userID of
                         Some parsedUUID \<Rightarrow>
                           if list_ex (\<lambda>u. User_ID u = parsedUUID) (users s)
                           then Some parsedUUID else None
                       | None \<Rightarrow> None)
         in case direct of
              Some u \<Rightarrow> Some u
            | None \<Rightarrow> map_option User_ID
                        (find (\<lambda>u. User_KeycloakUserID u = userID) (users s))))"

definition CreateAPIKey :: "env \<Rightarrow> store \<Rightarrow> uuid \<Rightarrow> nat \<Rightarrow> string \<Rightarrow> string \<Rightarrow> string \<Rightarrow>
    string \<Rightarrow> string \<Rightarrow> string \<Rightarrow> (string + APIKey) \<times> store" where
  "CreateAPIKey e s keyUUID now keyPrefix keyHash salt teamID userID alias =
     (let team = (case uuid_Parse e teamID of
                    Some teamIDParsed \<Rightarrow> Inr teamIDParsed
                  | None \<Rightarrow>
                      (case GetTeamByExtID s teamID of
                         Inl err \<Rightarrow> Inl (''failed to find team with external ID '' @ teamID
                                           @ '': '' @ err)
                       | Inr t \<Rightarrow> Inr (Team_ID t)))
      in case team of
           Inl err \<Rightarrow> (Inl err, s)
         | Inr teamUUID \<Rightarrow>
             (let userUUID = resolve_user e s userID;
                  fail = (\<lambda>m. (Inl (''failed to create API key: '' @ m), s))
              in case hex_DecodeString salt of
                   None \<Rightarrow> fail ''pq: invalid hexadecimal data''
                 | Some saltBytes \<Rightarrow>
                     if list_ex (\<lambda>k. ak_id k = keyUUID) (api_keys s)
                       then fail (unique_violation ''api_keys_pkey'')
                     else if list_ex (\<lambda>k. ak_key_prefix k = keyPrefix) (api_keys s)
                       then fail (unique_violation ''api_keys_key_prefix_key'')
                     else if \<not> list_ex (\<lambda>t. Team_ID t = teamUUID) (teams s)
                       then fail (foreign_key_violation ''api_keys'' ''api_keys_team_id_fkey'')
                     else
                       (let row = \<lparr>ak_id = keyUUID, ak_key_prefix = keyPrefix,
                                   ak_key_hash = keyHash, ak_hash_alg = ''argon2id'',
                                   ak_salt = saltBytes, ak_team_id = teamUUID,
                                   ak_user_id = userUUID, ak_alias = alias,
                                   ak_status = ''active'', ak_expires_at = None,
                                   ak_created_at = now\<rparr>
                        in (Inr \<lparr>APIKey_ID = keyUUID, APIKey_TeamID = teamUUID,
                                  APIKey_UserID = userUUID, APIKey_KeyPrefix = keyPrefix,
                                  APIKey_KeyHash = keyHash,
                                  APIKey_Salt = hex_EncodeToString saltBytes,
                                  APIKey_Alias = alias, APIKey_CreatedAt = now\<rparr>,
                            s\<lparr>api_keys := api_keys s @ [row]\<rparr>))))"

text \<open>
  \<open>ListTeamAPIKeys\<close> and \<open>ListUserAPIKeys\<close> select \<open>id, key_prefix, key_hash,
  team_id, user_id, alias, created_at\<close>: the struct's \<open>Salt\<close> is never scanned and keeps
  Go's zero value, the empty string. \<open>ORDER BY created_at DESC\<close> is a sort on the
  timestamp.
\<close>

definition scan_listed_key :: "api_key_row \<Rightarrow> APIKey" where
  "scan_listed_key k =
     \<lparr>APIKey_ID = ak_id k, APIKey_TeamID = ak_team_id k, APIKey_UserID = ak_user_id k,
      APIKey_KeyPrefix = ak_key_prefix k, APIKey_KeyHash = ak_key_hash k,
      APIKey_Salt = [], APIKey_Alias = ak_alias k, APIKey_CreatedAt = ak_created_at k\<rparr>"

definition ListTeamAPIKeys :: "store \<Rightarrow> uuid \<Rightarrow> APIKey list" where
  "ListTeamAPIKeys s teamID =
     map scan_listed_key
       (rev (sort_key ak_created_at (filter (\<lambda>k. ak_team_id k = teamID) (api_keys s))))"

definition ListUserAPIKeys :: "store \<Rightarrow> uuid \<Rightarrow> APIKey list" where
  "ListUserAPIKeys s userID =
     map scan_listed_key
       (rev (sort_key ak_created_at (filter (\<lambda>k. ak_user_id k = Some userID) (api_keys s))))"

definition FindUserByKeycloakID :: "store \<Rightarrow> string \<Rightarrow> string + User" where
  "FindUserByKeycloakID s keycloakUserID =
     (case find (\<lambda>u. User_KeycloakUserID u = keycloakUserID) (users s) of
        None \<Rightarrow> Inl (''user not found with keycloak_user_id: '' @ keycloakUserID)
      | Some u \<Rightarrow> Inr u)"

definition GetUserByID :: "store \<Rightarrow> uuid \<Rightarrow> string + User" where
  "GetUserByID s userID =
     (case find (\<lambda>u. User_ID u = userID) (users s) of
        None \<Rightarrow> Inl (''user not found with ID: '' @ userID)
      | Some u \<Rightarrow> Inr u)"

subsection \<open>Repository: model grants\<close>

text \<open>
  \<open>GetUserModelsAllowed\<close> is the query
  \<^verbatim>\<open>SELECT DISTINCT m.name FROM models m JOIN model_grants mg ON m.id = mg.model_id
  WHERE (mg.team_id = $1 OR (mg.team_id = $1 AND mg.user_id = $2)) ORDER BY m.name\<close>
  and \<open>GetUserModelAccess\<close> is
  \<^verbatim>\<open>SELECT DISTINCT m.* FROM models m INNER JOIN model_grants mg ON m.id = mg.model_id
  WHERE mg.team_id = $1 AND (mg.user_id IS NULL OR mg.user_id = $2)
  AND m.status = 'published' ORDER BY m.name\<close>.
  A comparison with \<open>NULL\<close> is not true, so \<open>mg.user_id = $2\<close> holds only for a grant
  with that user. \<open>ORDER BY\<close> is taken bytewise.
\<close>

definition join_grants :: "Model list \<Rightarrow> ModelGrant list \<Rightarrow> (Model \<times> ModelGrant) list" where
  "join_grants ms gs =
     concat (map (\<lambda>m. map (\<lambda>mg. (m, mg)) (filter (\<lambda>mg. Model_ID m = ModelGrant_ModelID mg) gs)) ms)"

definition GetUserModelsAllowed_where :: "string \<Rightarrow> string \<Rightarrow> ModelGrant \<Rightarrow> bool" where
  "GetUserModelsAllowed_where userID teamID mg =
     (ModelGrant_TeamID mg = teamID \<or>
      (ModelGrant_TeamID mg = teamID \<and> ModelGrant_UserID mg = Some userID))"

definition GetUserModelsAllowed_rows :: "Model list \<Rightarrow> ModelGrant list \<Rightarrow> string \<Rightarrow> string \<Rightarrow>
    string list" where
  "GetUserModelsAllowed_rows ms gs userID teamID =
     sort (remdups (map (\<lambda>(m, mg). Model_Name m)
       (filter (\<lambda>(m, mg). GetUserModelsAllowed_where userID teamID mg) (join_grants ms gs))))"

definition GetUserModelsAllowed :: "store \<Rightarrow> string \<Rightarrow> string \<Rightarrow> string list" where
  "GetUserModelsAllowed s userID teamID =
     GetUserModelsAllowed_rows (models s) (model_grants s) userID teamID"

definition GetUserModelAccess :: "store \<Rightarrow> uuid \<Rightarrow> uuid \<Rightarrow> Model list" where
  "GetUserModelAccess s userID teamID =
     sort_key Model_Name (remdups (map fst
       (filter (\<lambda>(m, mg). ModelGrant_TeamID mg = teamID \<and>
                           (ModelGrant_UserID mg = None \<or> ModelGrant_UserID mg = Some userID) \<and>
                           Model_Status m = ''published'')
          (join_grants (models s) (model_grants s)))))"

section \<open>Handlers of maas-api/v2\<close>

text \<open>
  A handler answers with \<open>c.JSON(status, body)\<close>. The reply is the status with either
  the message of a \<open>gin.H{"error": msg}\<close> body (\<open>Inl\<close>) or the success body (\<open>Inr\<close>). A
  handler that writes returns the store it leaves behind. Of the log, the model keeps
  the lines written about the policy synchronisation.

  \<open>ShouldBindJSON\<close> decodes the body and then checks the \<open>binding:"required"\<close> tags. The
  handlers take the outcome of the decoding: the decoder's error message or the
  decoded struct, in which an absent field has Go's zero value.
\<close>

type_synonym 'a reply = "nat \<times> (string + 'a)"

definition required_failed :: "string \<Rightarrow> string \<Rightarrow> string" where
  "required_failed struct field =
     ''Key: '' @ [CHR 0x27] @ struct @ ''.'' @ field @ [CHR 0x27] @
     '' Error:Field validation for '' @ [CHR 0x27] @ field @ [CHR 0x27] @
     '' failed on the '' @ [CHR 0x27] @ ''required'' @ [CHR 0x27] @ '' tag''"

fun nat_dec :: "nat \<Rightarrow> string" where
  "nat_dec n = (if n < 10 then [char_of (48 + n)]
                else nat_dec (n div 10) @ [char_of (48 + n mod 10)])"

definition Sprintf_d :: "int \<Rightarrow> string" where
  "Sprintf_d i = (if i < 0 then CHR ''-'' # nat_dec (nat (- i)) else nat_dec (nat i))"

text \<open>
  The policy manager is the reconciler of the \<open>TokenRateLimitPolicy\<close>; the handlers use
  two of its methods, each of which returns an error or \<open>nil\<close>. A \<open>TeamsHandler\<close>
  may hold no policy manager at all.
\<close>

record PolicyManager =
  AddTeamToTokenRateLimit :: "string \<Rightarrow> int \<Rightarrow> string \<Rightarrow> string option"
  RemoveTeamFromTokenRateLimit :: "string \<Rightarrow> string option"

record CreateTeamRequest =
  CreateTeamRequest_ExtID :: string
  CreateTeamRequest_Name :: string
  CreateTeamRequest_Description :: string
  CreateTeamRequest_RateLimit :: int
  CreateTeamRequest_RateWindow :: string
  CreateTeamRequest_RateLimitSpec :: string

record CreateTeamResponse =
  CreateTeamResponse_ID :: uuid
  CreateTeamResponse_ExtID :: string
  CreateTeamResponse_Name :: string
  CreateTeamResponse_Description :: string
  CreateTeamResponse_RateLimit :: int
  CreateTeamResponse_RateWindow :: string
  CreateTeamResponse_RateLimitSpec :: string
  CreateTeamResponse_CreatedAt :: nat

definition bind_CreateTeamRequest :: "string + CreateTeamRequest \<Rightarrow> string + CreateTeamRequest" where
  "bind_CreateTeamRequest decoded =
     (case decoded of
        Inl err \<Rightarrow> Inl err
      | Inr req \<Rightarrow>
          if CreateTeamRequest_ExtID req = [] \<and> CreateTeamRequest_Name req = []
            then Inl (required_failed ''CreateTeamRequest'' ''ExtID'' @ [CHR 0x0A] @
                      required_failed ''CreateTeamRequest'' ''Name'')
          else if CreateTeamRequest_ExtID req = []
            then Inl (required_failed ''CreateTeamRequest'' ''ExtID'')
          else if CreateTeamRequest_Name req = []
            then Inl (required_failed ''CreateTeamRequest'' ''Name'')
          else Inr req)"

definition set_defaults :: "CreateTeamRequest \<Rightarrow> CreateTeamRequest" where
  "set_defaults req0 =
     (let req1 = (if CreateTeamRequest_RateLimit req0 = 0
                  then req0\<lparr>CreateTeamRequest_RateLimit := 100\<rparr> else req0);
          req2 = (if CreateTeamRequest_RateWindow req1 = []
                  then req1\<lparr>CreateTeamRequest_RateWindow := ''1m''\<rparr> else req1)
      in if CreateTeamRequest_RateLimitSpec req2 = []
         then req2\<lparr>CreateTeamRequest_RateLimitSpec :=
                ''{'' @ [CHR 0x22] @ ''rates'' @ [CHR 0x22] @ '':[{'' @ [CHR 0x22] @ ''limit''
                @ [CHR 0x22] @ '':'' @ Sprintf_d (CreateTeamRequest_RateLimit req2) @ '',''
                @ [CHR 0x22] @ ''window'' @ [CHR 0x22] @ '':'' @ [CHR 0x22]
                @ CreateTeamRequest_RateWindow req2 @ [CHR 0x22] @ ''}]}''\<rparr>
         else req2)"

definition sync_rate_limits :: "string \<Rightarrow> string \<Rightarrow> PolicyManager option \<Rightarrow> Team \<Rightarrow>
    string list" where
  "sync_rate_limits warning success policyMgr team =
     (case policyMgr of
        None \<Rightarrow> []
      | Some pm \<Rightarrow>
          (case AddTeamToTokenRateLimit pm (Team_ExtID team) (Team_RateLimit team)
                  (Team_RateWindow team) of
             Some err \<Rightarrow> [warning @ err]
           | None \<Rightarrow> [success]))"

definition TeamsHandler_CreateTeam :: "env \<Rightarrow> PolicyManager option \<Rightarrow> uuid \<Rightarrow> nat \<Rightarrow>
    string + CreateTeamRequest \<Rightarrow> store \<Rightarrow> CreateTeamResponse reply \<times> store \<times> string list" where
  "TeamsHandler_CreateTeam e policyMgr teamUUID now decoded s =
     (case bind_CreateTeamRequest decoded of
        Inl err \<Rightarrow> ((400, Inl err), s, [])
      | Inr req0 \<Rightarrow>
          (let req = set_defaults req0 in
           case CreateTeam e s teamUUID now (CreateTeamRequest_ExtID req)
                  (CreateTeamRequest_Name req) (CreateTeamRequest_Description req)
                  (CreateTeamRequest_RateLimit req) (CreateTeamRequest_RateWindow req)
                  (CreateTeamRequest_RateLimitSpec req) of
             (Inl err, s') \<Rightarrow>
               (if Contains err ''duplicate key'' then
                  (if Contains err ''teams_name_key''
                     then ((409, Inl ''Team name already exists''), s', [])
                   else if Contains err ''teams_ext_id_key''
                     then ((409, Inl ''Team external ID already exists''), s', [])
                   else ((409, Inl ''Team already exists''), s', []))
                else ((500, Inl ''Failed to create team''), s', []))
           | (Inr team, s') \<Rightarrow>
               ((200, Inr \<lparr>CreateTeamResponse_ID = Team_ID team,
                           CreateTeamResponse_ExtID = Team_ExtID team,
                           CreateTeamResponse_Name = Team_Name team,
                           CreateTeamResponse_Description = Team_Description team,
                           CreateTeamResponse_RateLimit = Team_RateLimit team,
                           CreateTeamResponse_RateWindow = Team_RateWindow team,
                           CreateTeamResponse_RateLimitSpec = Team_RateLimitSpec team,
                           CreateTeamResponse_CreatedAt = Team_CreatedAt team\<rparr>),
                s',
                sync_rate_limits ''CreateTeam: Warning - Failed to sync rate limits to Kuadrant: ''
                  ''CreateTeam: Successfully synced rate limits to TokenRateLimitPolicy''
                  policyMgr team)))"

definition resolveTeamRef :: "env \<Rightarrow> store \<Rightarrow> string \<Rightarrow> string + Team" where
  "resolveTeamRef e s teamRef =
     (case uuid_Parse e teamRef of
        Some teamUUID \<Rightarrow> GetTeamByID s teamUUID
      | None \<Rightarrow> GetTeamByExtID s teamRef)"

record UpdateTeamRequest =
  UpdateTeamRequest_TeamName :: "string option"
  UpdateTeamRequest_Description :: "string option"
  UpdateTeamRequest_RateLimit :: "int option"
  UpdateTeamRequest_RateWindow :: "string option"
  UpdateTeamRequest_RateLimitSpec :: "string option"

definition rateChanged :: "UpdateTeamRequest \<Rightarrow> Team \<Rightarrow> bool" where
  "rateChanged req currentTeam =
     ((case UpdateTeamRequest_RateLimit req of
         Some r \<Rightarrow> r \<noteq> Team_RateLimit currentTeam | None \<Rightarrow> False) \<or>
      (case UpdateTeamRequest_RateWindow req of
         Some w \<Rightarrow> w \<noteq> Team_RateWindow currentTeam | None \<Rightarrow> False))"

definition TeamsHandler_UpdateTeam :: "env \<Rightarrow> PolicyManager option \<Rightarrow> nat \<Rightarrow> string \<Rightarrow>
    string + UpdateTeamRequest \<Rightarrow> store \<Rightarrow> Team reply \<times> store \<times> string list" where
  "TeamsHandler_UpdateTeam e policyMgr now teamID decoded s =
     (case decoded of
        Inl err \<Rightarrow> ((400, Inl err), s, [])
      | Inr req \<Rightarrow>
          (case resolveTeamRef e s teamID of
             Inl err \<Rightarrow> ((404, Inl ''Team not found''), s, [])
           | Inr currentTeam \<Rightarrow>
               (case UpdateTeam e s now (Team_ID currentTeam) (UpdateTeamRequest_TeamName req)
                       (UpdateTeamRequest_Description req) (UpdateTeamRequest_RateLimit req)
                       (UpdateTeamRequest_RateWindow req) of
                  (Inl err, s') \<Rightarrow>
                    (if Contains err ''not found'' then ((404, Inl ''Team not found''), s', [])
                     else if Contains err ''invalid'' then ((400, Inl err), s', [])
                     else ((500, Inl ''Failed to update team''), s', []))
                | (Inr team, s') \<Rightarrow>
                    ((200, Inr team), s',
                     if rateChanged req currentTeam
                     then sync_rate_limits
                            ''UpdateTeam: Warning - Failed to sync updated rate limits to Kuadrant: ''
                            ''UpdateTeam: Successfully synced updated rate limits to TokenRateLimitPolicy''
                            policyMgr team
                     else []))))"

record DeleteTeamBody =
  DeleteTeamBody_team_id :: uuid
  DeleteTeamBody_ext_id :: string
  DeleteTeamBody_name :: string
  DeleteTeamBody_cascaded_key_count :: nat
  DeleteTeamBody_deleted_by :: string

definition cleanup_rate_limits :: "PolicyManager option \<Rightarrow> string \<Rightarrow> string list" where
  "cleanup_rate_limits policyMgr extID =
     (case policyMgr of
        None \<Rightarrow> []
      | Some pm \<Rightarrow>
          (case RemoveTeamFromTokenRateLimit pm extID of
             Some err \<Rightarrow> [''DeleteTeam: Warning - Failed to remove team '' @ extID @
                          '' from TokenRateLimitPolicy: '' @ err]
           | None \<Rightarrow> [''DeleteTeam: Successfully removed team '' @ extID @
                       '' from TokenRateLimitPolicy'']))"

definition TeamsHandler_DeleteTeam :: "env \<Rightarrow> PolicyManager option \<Rightarrow> string \<Rightarrow> string \<Rightarrow>
    concurrent_creations \<Rightarrow> store \<Rightarrow> DeleteTeamBody reply \<times> store \<times> string list" where
  "TeamsHandler_DeleteTeam e policyMgr userID teamRef others s =
     (case resolveTeamRef e s teamRef of
        Inl err \<Rightarrow> ((404, Inl ''Team not found''), s, [])
      | Inr team \<Rightarrow>
          (case DeleteTeam s (Team_ID team) others of
             (Inl err, s') \<Rightarrow>
               (if Contains err ''team not found'' then ((404, Inl ''Team not found''), s', [])
                else ((500, Inl ''Failed to delete team''), s', []))
           | (Inr result, s') \<Rightarrow>
               ((200, Inr \<lparr>DeleteTeamBody_team_id = DeleteTeamResult_TeamID result,
                           DeleteTeamBody_ext_id = DeleteTeamResult_ExtID result,
                           DeleteTeamBody_name = DeleteTeamResult_Name result,
                           DeleteTeamBody_cascaded_key_count =
                             DeleteTeamResult_CascadedKeyCount result,
                           DeleteTeamBody_deleted_by = userID\<rparr>),
                s', cleanup_rate_limits policyMgr (DeleteTeamResult_ExtID result))))"

subsection \<open>Key manager and key handlers\<close>

record CreateTeamKeyRequest =
  CreateTeamKeyRequest_UserID :: string
  CreateTeamKeyRequest_Alias :: string

record CreateTeamKeyResponse =
  CreateTeamKeyResponse_ID :: string
  CreateTeamKeyResponse_APIKey :: string
  CreateTeamKeyResponse_KeyHash :: string
  CreateTeamKeyResponse_TeamID :: string
  CreateTeamKeyResponse_UserID :: string
  CreateTeamKeyResponse_Alias :: string

definition nil_UUID :: uuid where
  "nil_UUID = ''00000000-0000-0000-0000-000000000000''"

text \<open>
  \<open>Manager.CreateTeamKey\<close>: parse both references, check that the team exists,
  generate the key and store it. The plaintext \<open>apiKey\<close> goes into the response (as
  \<open>api_key\<close>, and once more as \<open>key_hash\<close>).
\<close>

definition Manager_CreateTeamKey :: "env \<Rightarrow> store \<Rightarrow> uuid \<Rightarrow> nat \<Rightarrow> (nat \<Rightarrow> byte) option \<Rightarrow>
    (nat \<Rightarrow> byte) option \<Rightarrow> string \<Rightarrow> CreateTeamKeyRequest \<Rightarrow>
    (string + CreateTeamKeyResponse) \<times> store" where
  "Manager_CreateTeamKey e s keyUUID now keyRead saltRead teamID req =
     (case uuid_Parse e teamID of
        None \<Rightarrow> (Inl ''invalid team ID: invalid UUID'', s)
      | Some teamUUID \<Rightarrow>
          (case uuid_Parse e (CreateTeamKeyRequest_UserID req) of
             None \<Rightarrow> (Inl ''invalid user ID: invalid UUID'', s)
           | Some userUUID \<Rightarrow>
               (case GetTeamByID s teamUUID of
                  Inl err \<Rightarrow> (Inl (''team not found: '' @ err), s)
                | Inr team \<Rightarrow>
                    (case generateAPIKey keyRead saltRead of
                       Inl err \<Rightarrow> (Inl (''failed to generate API key: '' @ err), s)
                     | Inr (apiKey, keyHash, salt, keyPrefix) \<Rightarrow>
                         (let userIDStr = (if userUUID \<noteq> nil_UUID then userUUID else [])
                          in case CreateAPIKey e s keyUUID now keyPrefix keyHash salt teamUUID
                                    userIDStr (CreateTeamKeyRequest_Alias req) of
                               (Inl err, s') \<Rightarrow> (Inl (''failed to store API key: '' @ err), s')
                             | (Inr dbKey, s') \<Rightarrow>
                                 (Inr \<lparr>CreateTeamKeyResponse_ID = APIKey_ID dbKey,
                                       CreateTeamKeyResponse_APIKey = apiKey,
                                       CreateTeamKeyResponse_KeyHash = keyHash,
                                       CreateTeamKeyResponse_TeamID = teamID,
                                       CreateTeamKeyResponse_UserID =
                                         CreateTeamKeyRequest_UserID req,
                                       CreateTeamKeyResponse_Alias =
                                         CreateTeamKeyRequest_Alias req\<rparr>, s'))))))"

definition bind_CreateTeamKeyRequest :: "string + CreateTeamKeyRequest \<Rightarrow>
    string + CreateTeamKeyRequest" where
  "bind_CreateTeamKeyRequest decoded =
     (case decoded of
        Inl err \<Rightarrow> Inl err
      | Inr req \<Rightarrow>
          if CreateTeamKeyRequest_UserID req = [] \<and> CreateTeamKeyRequest_Alias req = []
            then Inl (required_failed ''CreateTeamKeyRequest'' ''UserID'' @ [CHR 0x0A] @
                      required_failed ''CreateTeamKeyRequest'' ''Alias'')
          else if CreateTeamKeyRequest_UserID req = []
            then Inl (required_failed ''CreateTeamKeyRequest'' ''UserID'')
          else if CreateTeamKeyRequest_Alias req = []
            then Inl (required_failed ''CreateTeamKeyRequest'' ''Alias'')
          else Inr req)"

definition KeysHandler_CreateTeamKey :: "env \<Rightarrow> uuid \<Rightarrow> nat \<Rightarrow> (nat \<Rightarrow> byte) option \<Rightarrow>
    (nat \<Rightarrow> byte) option \<Rightarrow> string \<Rightarrow> string + CreateTeamKeyRequest \<Rightarrow> store \<Rightarrow>
    CreateTeamKeyResponse reply \<times> store" where
  "KeysHandler_CreateTeamKey e keyUUID now keyRead saltRead teamRef decoded s =
     (case bind_CreateTeamKeyRequest decoded of
        Inl err \<Rightarrow> ((400, Inl err), s)
      | Inr req \<Rightarrow>
          (case resolveTeamRef e s teamRef of
             Inl err \<Rightarrow> ((404, Inl ''Team not found''), s)
           | Inr team \<Rightarrow>
               (case Manager_CreateTeamKey e s keyUUID now keyRead saltRead (Team_ID team) req of
                  (Inl err, s') \<Rightarrow>
                    (if Contains err ''already has an active API key''
                     then ((409, Inl err), s')
                     else ((500, Inl ''Failed to create API key''), s'))
                | (Inr response, s') \<Rightarrow> ((200, Inr response), s'))))"

record ListTeamKeysBody =
  ListTeamKeysBody_team_id :: uuid
  ListTeamKeysBody_team_ext_id :: string
  ListTeamKeysBody_team_name :: string
  ListTeamKeysBody_keys :: "APIKey list"
  ListTeamKeysBody_total_keys :: nat

text \<open>
  \<open>ListTeamKeys\<close> marshals the \<open>[]APIKey\<close> as it is: every field of the struct is in
  the JSON, \<open>key_hash\<close> and \<open>salt\<close> among them.
\<close>

definition KeysHandler_ListTeamKeys :: "env \<Rightarrow> string \<Rightarrow> store \<Rightarrow> ListTeamKeysBody reply" where
  "KeysHandler_ListTeamKeys e teamRef s =
     (case resolveTeamRef e s teamRef of
        Inl err \<Rightarrow> (404, Inl ''Team not found'')
      | Inr team \<Rightarrow>
          (let keys = ListTeamAPIKeys s (Team_ID team) in
           (200, Inr \<lparr>ListTeamKeysBody_team_id = Team_ID team,
                      ListTeamKeysBody_team_ext_id = Team_ExtID team,
                      ListTeamKeysBody_team_name = Team_Name team,
                      ListTeamKeysBody_keys = keys,
                      ListTeamKeysBody_total_keys = length keys\<rparr>)))"

record userKeyResponse =
  userKeyResponse_ID :: string
  userKeyResponse_Alias :: string
  userKeyResponse_CreatedAt :: nat
  userKeyResponse_KeyPrefix :: string
  userKeyResponse_Key :: string
  userKeyResponse_TeamID :: string
  userKeyResponse_TeamExtID :: string
  userKeyResponse_TeamName :: string
  userKeyResponse_UserID :: string
  userKeyResponse_UserEmail :: string

record ListUserKeysBody =
  ListUserKeysBody_user_id :: string
  ListUserKeysBody_keys :: "userKeyResponse list"
  ListUserKeysBody_total_keys :: nat

definition decodeStoredKey :: "string \<Rightarrow> string" where
  "decodeStoredKey raw =
     (if raw = [] then []
      else if HasPrefix raw backslash_x then
        (case hex_DecodeString (drop 2 raw) of
           None \<Rightarrow> raw
         | Some decoded \<Rightarrow> TrimRight_NUL (string_of_bytes decoded))
      else raw)"

text \<open>
  The loop of \<open>ListUserKeys\<close> over the keys, with its cache of the teams it has
  loaded: a team that cannot be loaded leaves both team fields empty.
\<close>

fun user_key_responses :: "env \<Rightarrow> store \<Rightarrow> User \<Rightarrow> (string \<rightharpoonup> Team) \<Rightarrow> APIKey list \<Rightarrow>
    userKeyResponse list" where
  "user_key_responses e s targetUser teamCache [] = []"
| "user_key_responses e s targetUser teamCache (key # keys) =
     (let loaded =
            (if APIKey_TeamID key = [] then None
             else case teamCache (APIKey_TeamID key) of
                    Some cached \<Rightarrow> Some cached
                  | None \<Rightarrow>
                      (case uuid_Parse e (APIKey_TeamID key) of
                         None \<Rightarrow> None
                       | Some parsedID \<Rightarrow>
                           (case GetTeamByID s parsedID of
                              Inl teamErr \<Rightarrow> None
                            | Inr team \<Rightarrow> Some team)));
          teamCache' = (case loaded of
                          Some team \<Rightarrow> teamCache(APIKey_TeamID key \<mapsto> team)
                        | None \<Rightarrow> teamCache)
      in \<lparr>userKeyResponse_ID = APIKey_ID key,
          userKeyResponse_Alias = APIKey_Alias key,
          userKeyResponse_CreatedAt = APIKey_CreatedAt key,
          userKeyResponse_KeyPrefix = APIKey_KeyPrefix key,
          userKeyResponse_Key = decodeStoredKey (APIKey_KeyHash key),
          userKeyResponse_TeamID = APIKey_TeamID key,
          userKeyResponse_TeamExtID = (case loaded of Some team \<Rightarrow> Team_ExtID team | None \<Rightarrow> []),
          userKeyResponse_TeamName = (case loaded of Some team \<Rightarrow> Team_Name team | None \<Rightarrow> []),
          userKeyResponse_UserID = User_ID targetUser,
          userKeyResponse_UserEmail = User_Email targetUser\<rparr>
        # user_key_responses e s targetUser teamCache' keys)"

definition KeysHandler_ListUserKeys :: "env \<Rightarrow> string \<Rightarrow> string \<Rightarrow> store \<Rightarrow>
    ListUserKeysBody reply" where
  "KeysHandler_ListUserKeys e requesterKeycloakUserID userRef s =
     (case FindUserByKeycloakID s requesterKeycloakUserID of
        Inl err \<Rightarrow> (500, Inl ''could not identify requester'')
      | Inr requester \<Rightarrow>
          (case (if userRef = ''me'' then Some (User_ID requester) else uuid_Parse e userRef) of
             None \<Rightarrow> (400, Inl ''Invalid user ID format'')
           | Some userUUID \<Rightarrow>
               (case GetUserByID s userUUID of
                  Inl err \<Rightarrow> (500, Inl ''Failed to get user info'')
                | Inr targetUser \<Rightarrow>
                    (let responseKeys = user_key_responses e s targetUser Map.empty
                                          (ListUserAPIKeys s userUUID)
                     in (200, Inr \<lparr>ListUserKeysBody_user_id = userUUID,
                                   ListUserKeysBody_keys = responseKeys,
                                   ListUserKeysBody_total_keys = length responseKeys\<rparr>)))))"

section \<open>The key manager's introspection endpoint\<close>

text \<open>
  \<open>key-manager/internal/handlers/introspect.go\<close> works on the key manager's
  repository, whose \<open>teams\<close> rows carry a \<open>default_policy_id\<close> and which has a table
  \<open>policies\<close>. The other tables are those of the store above.
\<close>

record km_Team =
  km_Team_ID :: uuid
  km_Team_ExtID :: string
  km_Team_Name :: string
  km_Team_Description :: string
  km_Team_DefaultPolicyID :: "uuid option"

record Policy =
  Policy_ID :: uuid
  Policy_Name :: string
  Policy_Kind :: string
  Policy_SpecJSON :: string

record km_store =
  km_teams :: "km_Team list"
  km_policies :: "Policy list"
  km_team_memberships :: "TeamMembership list"
  km_models :: "Model list"
  km_model_grants :: "ModelGrant list"
  km_api_keys :: "api_key_row list"

text \<open>
  \<open>GetAPIKeyByPrefix\<close> selects \<open>id, team_id, user_id, key_prefix, key_hash, salt,
  created_at\<close> of the row with the prefix. It reads neither \<open>status\<close> nor
  \<open>expires_at\<close>, and the struct has no field for them.
\<close>

definition GetAPIKeyByPrefix :: "km_store \<Rightarrow> string \<Rightarrow> string + APIKey" where
  "GetAPIKeyByPrefix s prefix =
     (case find (\<lambda>k. ak_key_prefix k = prefix) (km_api_keys s) of
        None \<Rightarrow> Inl (''api key not found with prefix: '' @ prefix)
      | Some k \<Rightarrow>
          Inr \<lparr>APIKey_ID = ak_id k, APIKey_TeamID = ak_team_id k, APIKey_UserID = ak_user_id k,
               APIKey_KeyPrefix = ak_key_prefix k, APIKey_KeyHash = ak_key_hash k,
               APIKey_Salt = string_of_bytes (ak_salt k), APIKey_Alias = [],
               APIKey_CreatedAt = ak_created_at k\<rparr>)"

definition IsTeamMember :: "km_store \<Rightarrow> string \<Rightarrow> string \<Rightarrow> string + bool" where
  "IsTeamMember s teamID userID =
     Inr (list_ex (\<lambda>m. TeamMembership_TeamID m = teamID \<and> TeamMembership_UserID m = userID)
            (km_team_memberships s))"

definition GetTeam :: "km_store \<Rightarrow> string \<Rightarrow> string + km_Team" where
  "GetTeam s teamID =
     (case find (\<lambda>t. km_Team_ID t = teamID) (km_teams s) of
        None \<Rightarrow> Inl (''team not found: '' @ teamID)
      | Some t \<Rightarrow>
          Inr \<lparr>km_Team_ID = km_Team_ID t, km_Team_ExtID = [], km_Team_Name = km_Team_Name t,
               km_Team_Description = [], km_Team_DefaultPolicyID = km_Team_DefaultPolicyID t\<rparr>)"

definition GetPolicy :: "km_store \<Rightarrow> string \<Rightarrow> string + Policy" where
  "GetPolicy s policyID =
     (case find (\<lambda>p. Policy_ID p = policyID) (km_policies s) of
        None \<Rightarrow> Inl (''policy not found: '' @ policyID)
      | Some p \<Rightarrow> Inr p)"

definition km_GetUserModelsAllowed :: "km_store \<Rightarrow> string \<Rightarrow> string \<Rightarrow> string + string list" where
  "km_GetUserModelsAllowed s userID teamID =
     Inr (GetUserModelsAllowed_rows (km_models s) (km_model_grants s) userID teamID)"

record IntrospectRequest =
  IntrospectRequest_Token :: string
  IntrospectRequest_RunAsUserID :: string

record IntrospectResponse =
  IntrospectResponse_Active :: bool
  IntrospectResponse_APIKeyID :: string
  IntrospectResponse_TeamID :: string
  IntrospectResponse_UserID :: string
  IntrospectResponse_Group :: string
  IntrospectResponse_ModelsAllowed :: "string list"
  IntrospectResponse_PolicyID :: string
  IntrospectResponse_Error :: string

definition inactive :: "string \<Rightarrow> IntrospectResponse" where
  "inactive err =
     \<lparr>IntrospectResponse_Active = False, IntrospectResponse_APIKeyID = [],
      IntrospectResponse_TeamID = [], IntrospectResponse_UserID = [],
      IntrospectResponse_Group = [], IntrospectResponse_ModelsAllowed = [],
      IntrospectResponse_PolicyID = [], IntrospectResponse_Error = err\<rparr>"

definition verifyAPIKey :: "string \<Rightarrow> string \<Rightarrow> string \<Rightarrow> bool" where
  "verifyAPIKey providedKey storedHash salt =
     (if HasPrefix storedHash backslash_x then
        (case hex_DecodeString (drop 2 storedHash) of
           None \<Rightarrow> False
         | Some decoded \<Rightarrow> TrimRight_NUL (string_of_bytes decoded) = providedKey)
      else storedHash = providedKey)"

text \<open>
  The request body reaches the handler twice: as what the JSON decoder makes of it
  (\<open>None\<close> when it is no JSON for the struct) and as what \<open>url.ParseQuery\<close> makes of
  it (\<open>None\<close> on a parse error, else the pairs in order). \<open>ShouldBindJSON\<close> also fails
  when the decoded token is empty, as \<open>Token\<close> is \<open>binding:"required"\<close>; the form is
  read only then. \<open>Values.Get\<close> is the first value of a key, or the empty string.
\<close>

record raw_body =
  as_json :: "IntrospectRequest option"
  as_form :: "(string \<times> string) list option"

definition Values_Get :: "(string \<times> string) list \<Rightarrow> string \<Rightarrow> string" where
  "Values_Get formValues key = (case map_of formValues key of Some v \<Rightarrow> v | None \<Rightarrow> [])"

definition bind_IntrospectRequest :: "raw_body \<Rightarrow> (nat \<times> IntrospectResponse) + IntrospectRequest" where
  "bind_IntrospectRequest body =
     (case (case as_json body of
              Some req \<Rightarrow> if IntrospectRequest_Token req = [] then None else Some req
            | None \<Rightarrow> None) of
        Some req \<Rightarrow> Inr req
      | None \<Rightarrow>
          (case as_form body of
             None \<Rightarrow> Inl (400, inactive ''invalid_request'')
           | Some formValues \<Rightarrow>
               (let req = \<lparr>IntrospectRequest_Token = Values_Get formValues ''token'',
                           IntrospectRequest_RunAsUserID =
                             Values_Get formValues ''run_as_user_id''\<rparr>
                in if IntrospectRequest_Token req = []
                   then Inl (400, inactive ''invalid_request'')
                   else Inr req)))"

text \<open>
  The Run-As step: a key without a user (\<open>NULL\<close>, or an empty string) is a team
  service key, and the effective user is the \<open>run_as_user_id\<close> of the request.
\<close>

definition effective_user :: "km_store \<Rightarrow> APIKey \<Rightarrow> IntrospectRequest \<Rightarrow>
    (nat \<times> IntrospectResponse) + string option" where
  "effective_user s apiKey req =
     (if APIKey_UserID apiKey = None \<or> APIKey_UserID apiKey = Some [] then
        (if IntrospectRequest_RunAsUserID req = [] then Inl (403, inactive ''run_as_required'')
         else case IsTeamMember s (APIKey_TeamID apiKey) (IntrospectRequest_RunAsUserID req) of
                Inr True \<Rightarrow> Inr (Some (IntrospectRequest_RunAsUserID req))
              | _ \<Rightarrow> Inl (403, inactive ''run_as_not_member''))
      else Inr (APIKey_UserID apiKey))"

definition resolve_key :: "km_store \<Rightarrow> IntrospectRequest \<Rightarrow> nat \<times> IntrospectResponse" where
  "resolve_key s req =
     (if length (IntrospectRequest_Token req) < 8 then (401, inactive ''invalid_key'')
      else
        (let keyPrefix = take 8 (IntrospectRequest_Token req) in
         case GetAPIKeyByPrefix s keyPrefix of
           Inl err \<Rightarrow> (401, inactive ''invalid_key'')
         | Inr apiKey \<Rightarrow>
             if \<not> verifyAPIKey (IntrospectRequest_Token req) (APIKey_KeyHash apiKey)
                    (APIKey_Salt apiKey)
             then (401, inactive ''invalid_key'')
             else
               (case effective_user s apiKey req of
                  Inl reply \<Rightarrow> reply
                | Inr effectiveUserID \<Rightarrow>
                    (case GetTeam s (APIKey_TeamID apiKey) of
                       Inl err \<Rightarrow> (401, inactive ''invalid_key'')
                     | Inr team \<Rightarrow>
                         (case km_Team_DefaultPolicyID team of
                            None \<Rightarrow> (401, inactive ''invalid_key'')
                          | Some policyID \<Rightarrow>
                              (case GetPolicy s policyID of
                                 Inl err \<Rightarrow> (401, inactive ''invalid_key'')
                               | Inr policy \<Rightarrow>
                                   (let effectiveUserIDStr =
                                          (case effectiveUserID of Some u \<Rightarrow> u | None \<Rightarrow> [])
                                    in case km_GetUserModelsAllowed s effectiveUserIDStr
                                              (APIKey_TeamID apiKey) of
                                         Inl err \<Rightarrow> (500, inactive ''internal_error'')
                                       | Inr modelsAllowed \<Rightarrow>
                                           (200,
                                            \<lparr>IntrospectResponse_Active = True,
                                             IntrospectResponse_APIKeyID = APIKey_ID apiKey,
                                             IntrospectResponse_TeamID = APIKey_TeamID apiKey,
                                             IntrospectResponse_UserID = effectiveUserIDStr,
                                             IntrospectResponse_Group =
                                               ''plan:'' @ Policy_Name policy,
                                             IntrospectResponse_ModelsAllowed = modelsAllowed,
                                             IntrospectResponse_PolicyID = policyID,
                                             IntrospectResponse_Error = []\<rparr>))))))))"

definition Introspect :: "km_store \<Rightarrow> raw_body \<Rightarrow> nat \<times> IntrospectResponse" where
  "Introspect s body =
     (case bind_IntrospectRequest body of
        Inl reply \<Rightarrow> reply
      | Inr req \<Rightarrow> resolve_key s req)"

text \<open>\<open>strings.Split(s, ",")\<close>, which the rate-limit predicates apply to a group claim.\<close>

fun Split_comma :: "string \<Rightarrow> string list" where
  "Split_comma [] = [[]]"
| "Split_comma (c # cs) =
     (if c = CHR '','' then [] # Split_comma cs
      else (case Split_comma cs of
              [] \<Rightarrow> [[c]]
            | w # ws \<Rightarrow> (c # w) # ws))"

section \<open>Well-formed key tables and sample data\<close>

text \<open>
  The invariant of \<open>api_keys\<close> that the mint maintains: prefixes are pairwise
  different (the \<open>UNIQUE\<close> constraint) and eight characters long.
\<close>

definition keys_wf :: "store \<Rightarrow> bool" where
  "keys_wf s = (distinct (map ak_key_prefix (api_keys s)) \<and>
                list_all (\<lambda>k. length (ak_key_prefix k) = 8) (api_keys s))"

text \<open>
  A sample deployment: \<open>uuid.Parse\<close> accepts the 36-character form, every text is
  JSON, one user, one team with one key. The read for a new key draws the bytes
  0, 1, 2, ... and the read for its salt the bytes 0x00, 0x11, 0x22, ...
\<close>

definition drawn_key :: "nat \<Rightarrow> byte" where
  "drawn_key i = of_nat i"

definition drawn_salt :: "nat \<Rightarrow> byte" where
  "drawn_salt i = of_nat (17 * i)"

definition zeros16 :: "byte list" where
  "zeros16 = [0,0,0,0,0,0,0,0, 0,0,0,0,0,0,0,0]"

definition demo_env :: env where
  "demo_env = \<lparr>uuid_Parse = (\<lambda>x. if length x = 36 then Some x else None), jsonb = Some\<rparr>"

definition alice :: User where
  "alice = \<lparr>User_ID = ''11111111-1111-4111-8111-111111111111'',
             User_Email = ''alice@example.com'', User_KeycloakUserID = ''kc-alice'',
             User_DisplayName = ''Alice'', User_Type = ''human''\<rparr>"

definition team_orange :: Team where
  "team_orange = \<lparr>Team_ID = ''aaaaaaaa-aaaa-4aaa-8aaa-aaaaaaaaaaaa'',
                   Team_ExtID = ''team-orange'', Team_Name = ''Orange'',
                   Team_Description = ''demo'', Team_RateLimit = 100,
                   Team_RateWindow = ''1m'', Team_RateLimitSpec = ''{}'',
                   Team_CreatedAt = 1, Team_UpdatedAt = 1\<rparr>"

definition demo_key_row :: api_key_row where
  "demo_key_row = \<lparr>ak_id = ''cccccccc-0000-4000-8000-000000000001'',
                    ak_key_prefix = ''AAAAAAAA'',
                    ak_key_hash = ''AAAAAAAAAAAAAAAAAAAAAAAAAAAAAAAAAAAAAAAAAAA'',
                    ak_hash_alg = ''argon2id'', ak_salt = zeros16,
                    ak_team_id = ''aaaaaaaa-aaaa-4aaa-8aaa-aaaaaaaaaaaa'',
                    ak_user_id = Some ''11111111-1111-4111-8111-111111111111'',
                    ak_alias = ''laptop'', ak_status = ''active'', ak_expires_at = None,
                    ak_created_at = 7\<rparr>"

definition demo_store :: store where
  "demo_store = \<lparr>users = [alice], teams = [team_orange], team_memberships = [],
                  models = [], model_grants = [], api_keys = [demo_key_row]\<rparr>"

definition demo_key_request :: CreateTeamKeyRequest where
  "demo_key_request = \<lparr>CreateTeamKeyRequest_UserID = ''11111111-1111-4111-8111-111111111111'',
                         CreateTeamKeyRequest_Alias = ''phone''\<rparr>"

definition minted_salt :: "byte list" where
  "minted_salt = [0x00, 0x11, 0x22, 0x33, 0x44, 0x55, 0x66, 0x77,
                  0x88, 0x99, 0xAA, 0xBB, 0xCC, 0xDD, 0xEE, 0xFF]"

definition minted_key_row :: api_key_row where
  "minted_key_row = \<lparr>ak_id = ''cccccccc-0000-4000-8000-000000000009'',
                      ak_key_prefix = ''AAECAwQF'',
                      ak_key_hash = ''AAECAwQFBgcICQoLDA0ODxAREhMUFRYXGBkaGxwdHh8'',
                      ak_hash_alg = ''argon2id'', ak_salt = minted_salt,
                      ak_team_id = ''aaaaaaaa-aaaa-4aaa-8aaa-aaaaaaaaaaaa'',
                      ak_user_id = Some ''11111111-1111-4111-8111-111111111111'',
                      ak_alias = ''phone'', ak_status = ''active'', ak_expires_at = None,
                      ak_created_at = 9\<rparr>"

definition minted_key_response :: CreateTeamKeyResponse where
  "minted_key_response =
     \<lparr>CreateTeamKeyResponse_ID = ''cccccccc-0000-4000-8000-000000000009'',
      CreateTeamKeyResponse_APIKey = ''AAECAwQFBgcICQoLDA0ODxAREhMUFRYXGBkaGxwdHh8'',
      CreateTeamKeyResponse_KeyHash = ''AAECAwQFBgcICQoLDA0ODxAREhMUFRYXGBkaGxwdHh8'',
      CreateTeamKeyResponse_TeamID = ''aaaaaaaa-aaaa-4aaa-8aaa-aaaaaaaaaaaa'',
      CreateTeamKeyResponse_UserID = ''11111111-1111-4111-8111-111111111111'',
      CreateTeamKeyResponse_Alias = ''phone''\<rparr>"

text \<open>
  A sample key manager store: one team with a default policy, two members, one model
  granted to the second member only, and three keys: a user's key, a key that is
  revoked and past its expiry, and a team service key.
\<close>

definition km_team_orange :: km_Team where
  "km_team_orange = \<lparr>km_Team_ID = ''aaaaaaaa-aaaa-4aaa-8aaa-aaaaaaaaaaaa'',
                      km_Team_ExtID = ''team-orange'', km_Team_Name = ''Orange'',
                      km_Team_Description = ''demo'',
                      km_Team_DefaultPolicyID = Some ''bbbbbbbb-bbbb-4bbb-8bbb-bbbbbbbbbbbb''\<rparr>"

definition free_policy :: Policy where
  "free_policy = \<lparr>Policy_ID = ''bbbbbbbb-bbbb-4bbb-8bbb-bbbbbbbbbbbb'',
                   Policy_Name = ''free-5-2min'', Policy_Kind = ''TokenRateLimitPolicy'',
                   Policy_SpecJSON = ''{}''\<rparr>"

definition qwen :: Model where
  "qwen = \<lparr>Model_ID = ''dddddddd-dddd-4ddd-8ddd-dddddddddddd'',
            Model_Name = ''qwen3-0.6b-instruct'', Model_Provider = ''vllm'',
            Model_RouteName = ''qwen3-llm'', Model_Status = ''published''\<rparr>"

definition bob_grant :: ModelGrant where
  "bob_grant = \<lparr>ModelGrant_ID = ''eeeeeeee-eeee-4eee-8eee-eeeeeeeeeeee'',
                 ModelGrant_TeamID = ''aaaaaaaa-aaaa-4aaa-8aaa-aaaaaaaaaaaa'',
                 ModelGrant_UserID = Some ''22222222-2222-4222-8222-222222222222'',
                 ModelGrant_ModelID = ''dddddddd-dddd-4ddd-8ddd-dddddddddddd'',
                 ModelGrant_Role = ''invoke''\<rparr>"

definition alice_member :: TeamMembership where
  "alice_member = \<lparr>TeamMembership_TeamID = ''aaaaaaaa-aaaa-4aaa-8aaa-aaaaaaaaaaaa'',
                    TeamMembership_UserID = ''11111111-1111-4111-8111-111111111111'',
                    TeamMembership_Role = ''member''\<rparr>"

definition bob_member :: TeamMembership where
  "bob_member = \<lparr>TeamMembership_TeamID = ''aaaaaaaa-aaaa-4aaa-8aaa-aaaaaaaaaaaa'',
                  TeamMembership_UserID = ''22222222-2222-4222-8222-222222222222'',
                  TeamMembership_Role = ''member''\<rparr>"

definition revoked_key_row :: api_key_row where
  "revoked_key_row = \<lparr>ak_id = ''cccccccc-0000-4000-8000-000000000002'',
                    ak_key_prefix = ''BBBBBBBB'',
                    ak_key_hash = ''BBBBBBBBBBBBBBBBBBBBBBBBBBBBBBBBBBBBBBBBBBB'',
                    ak_hash_alg = ''argon2id'', ak_salt = zeros16,
                    ak_team_id = ''aaaaaaaa-aaaa-4aaa-8aaa-aaaaaaaaaaaa'',
                    ak_user_id = Some ''11111111-1111-4111-8111-111111111111'',
                    ak_alias = ''old laptop'', ak_status = ''revoked'', ak_expires_at = Some 5,
                    ak_created_at = 3\<rparr>"

definition service_key_row :: api_key_row where
  "service_key_row = \<lparr>ak_id = ''cccccccc-0000-4000-8000-000000000003'',
                    ak_key_prefix = ''CCCCCCCC'',
                    ak_key_hash = ''CCCCCCCCCCCCCCCCCCCCCCCCCCCCCCCCCCCCCCCCCCC'',
                    ak_hash_alg = ''argon2id'', ak_salt = zeros16,
                    ak_team_id = ''aaaaaaaa-aaaa-4aaa-8aaa-aaaaaaaaaaaa'',
                    ak_user_id = None,
                    ak_alias = ''ci'', ak_status = ''active'', ak_expires_at = None,
                    ak_created_at = 4\<rparr>"

definition demo_km_store :: km_store where
  "demo_km_store = \<lparr>km_teams = [km_team_orange], km_policies = [free_policy],
                     km_team_memberships = [alice_member, bob_member],
                     km_models = [qwen], km_model_grants = [bob_grant],
                     km_api_keys = [demo_key_row, revoked_key_row, service_key_row]\<rparr>"

definition grant_store :: store where
  "grant_store = \<lparr>users = [alice], teams = [team_orange], team_memberships = [alice_member, bob_member],
                   models = [qwen], model_grants = [bob_grant], api_keys = []\<rparr>"

definition form_body :: "string \<Rightarrow> string \<Rightarrow> raw_body" where
  "form_body token run_as =
     \<lparr>as_json = None,
      as_form = Some (if run_as = [] then [(''token'', token)]
                      else [(''token'', token), (''run_as_user_id'', run_as)])\<rparr>"

text \<open>
  A second team and a key of it; three sessions that create credentials while team
  Orange is being deleted: one for team Orange right after the lock, one for team Blue
  after the count, one more for team Orange after the delete.
\<close>

definition team_blue :: Team where
  "team_blue = \<lparr>Team_ID = ''bbbbbbbb-0000-4000-8000-bbbbbbbbbbbb'',
                 Team_ExtID = ''team-blue'', Team_Name = ''Blue'',
                 Team_Description = ''demo'', Team_RateLimit = 5,
                 Team_RateWindow = ''2m'', Team_RateLimitSpec = ''{}'',
                 Team_CreatedAt = 2, Team_UpdatedAt = 2\<rparr>"





text \<open>
  A policy manager whose every call fails, a request that creates team Blue and a
  request that lowers the rate limit of a team to 50.
\<close>

definition broken_policy_manager :: PolicyManager where
  "broken_policy_manager =
     \<lparr>AddTeamToTokenRateLimit = (\<lambda>extID rateLimit rateWindow. Some ''connection refused''),
      RemoveTeamFromTokenRateLimit = (\<lambda>extID. Some ''connection refused'')\<rparr>"

definition blue_request :: CreateTeamRequest where
  "blue_request = \<lparr>CreateTeamRequest_ExtID = ''team-blue'', CreateTeamRequest_Name = ''Blue'',
                    CreateTeamRequest_Description = ''demo'', CreateTeamRequest_RateLimit = 5,
                    CreateTeamRequest_RateWindow = ''2m'', CreateTeamRequest_RateLimitSpec = ''{}''\<rparr>"

definition slower_request :: UpdateTeamRequest where
  "slower_request = \<lparr>UpdateTeamRequest_TeamName = None, UpdateTeamRequest_Description = None,
                      UpdateTeamRequest_RateLimit = Some 50, UpdateTeamRequest_RateWindow = None,
                      UpdateTeamRequest_RateLimitSpec = None\<rparr>"

section \<open>Facts about the encodings\<close>

lemma hex_EncodeToString_length: "length (hex_EncodeToString bs) = 2 * length bs"
  by (induction bs) simp_all

lemma base64_RawURLEncoding_length:
  "length (base64_RawURLEncoding_EncodeToString bs) = (4 * length bs + 2) div 3"
  by (induction bs rule: base64_RawURLEncoding_EncodeToString.induct) (simp_all add: Let_def)

lemma hextable_all: "list_all (\<lambda>n. fromHexChar (hextable ! n) = Some n) [0..<16]"
  by code_simp

lemma hextable_nth_fromHexChar:
  "n < 16 \<Longrightarrow> fromHexChar (hextable ! n) = Some n"
  using hextable_all by (simp add: list_all_iff)

lemma hex_roundtrip: "hex_DecodeString (hex_EncodeToString bs) = Some bs"
proof (induction bs)
  case Nil
  then show ?case by simp
next
  case (Cons b bs)
  have lt: "unat b < 256" using unsigned_less [of b, where ?'a = nat] by simp
  then have "unat b div 16 < 16" "unat b mod 16 < 16" by auto
  then have "fromHexChar (hextable ! (unat b div 16)) = Some (unat b div 16)"
    "fromHexChar (hextable ! (unat b mod 16)) = Some (unat b mod 16)"
    by (simp_all add: hextable_nth_fromHexChar)
  moreover have "(of_nat (unat b div 16 * 16 + unat b mod 16) :: byte) = b"
    by simp
  ultimately show ?case using Cons.IH by simp
qed

lemma encodeURL_nth_mem: "encodeURL ! (n mod 64) \<in> set encodeURL"
proof -
  have "length encodeURL = 64" by (simp add: encodeURL_def)
  then show ?thesis by (metis nth_mem mod_less_divisor zero_less_numeral)
qed

lemma base64_alphabet:
  "set (base64_RawURLEncoding_EncodeToString bs) \<subseteq> set encodeURL"
  by (induction bs rule: base64_RawURLEncoding_EncodeToString.induct)
     (simp_all add: Let_def encodeURL_nth_mem)

lemma backslash_notin_encodeURL: "CHR 0x5C \<notin> set encodeURL"
  by (simp add: encodeURL_def)

lemma rand_Read_length:
  "rand_Read outcome b = Some bs \<Longrightarrow> length bs = length b"
  by (auto simp: rand_Read_def split: option.splits)

lemma rand_Read_32: "rand_Read (Some drawn) (make_bytes 32) = Some (map drawn [0..<32])"
  by (simp add: rand_Read_def make_bytes_def)

lemma rand_Read_16: "rand_Read (Some drawn) (make_bytes 16) = Some (map drawn [0..<16])"
  by (simp add: rand_Read_def make_bytes_def)

lemma minted_length:
  "length (base64_RawURLEncoding_EncodeToString (map drawn [0..<32])) = 43"
  by (simp add: base64_RawURLEncoding_length)

lemma generateAPIKey_ok:
  "generateAPIKey (Some keyDrawn) (Some saltDrawn) =
     Inr (base64_RawURLEncoding_EncodeToString (map keyDrawn [0..<32]),
          base64_RawURLEncoding_EncodeToString (map keyDrawn [0..<32]),
          hex_EncodeToString (map saltDrawn [0..<16]),
          take 8 (base64_RawURLEncoding_EncodeToString (map keyDrawn [0..<32])))"
  by (simp add: generateAPIKey_def rand_Read_32 rand_Read_16 slice_to_def minted_length Let_def)

lemma upt_32: "[0..<32] = [0,1,2,3,4,5,6,7,8,9,10,11,12,13,14,15,16,17,18,19,20,21,22,23,24,25,26,27,28,29,30,31]"
  by (simp add: upt_rec)

lemma upt_16: "[0..<16] = [0,1,2,3,4,5,6,7,8,9,10,11,12,13,14,15]"
  by (simp add: upt_rec)

lemma drawn_key_bytes:
  "map drawn_key [0..<32] = [0,1,2,3,4,5,6,7,8,9,10,11,12,13,14,15,16,17,18,19,20,21,22,23,24,25,26,27,28,29,30,31]"
  by (simp add: upt_32 drawn_key_def)

lemma drawn_salt_bytes: "map drawn_salt [0..<16] = minted_salt"
  by (simp add: upt_16 drawn_salt_def minted_salt_def)

lemma minted_plaintext:
  "base64_RawURLEncoding_EncodeToString (map drawn_key [0..<32]) =
     ''AAECAwQFBgcICQoLDA0ODxAREhMUFRYXGBkaGxwdHh8''"
  by (simp add: drawn_key_bytes encodeURL_def)

lemma minted_salt_hex:
  "hex_EncodeToString minted_salt = ''00112233445566778899aabbccddeeff''"
  by (simp add: minted_salt_def hextable_def)

lemma CreateAPIKey_Inr:
  assumes "CreateAPIKey e s keyUUID now keyPrefix keyHash salt teamID userID alias = (Inr k, s')"
  shows "\<exists>row. s' = s\<lparr>api_keys := api_keys s @ [row]\<rparr> \<and> ak_key_prefix row = keyPrefix \<and>
           ak_key_hash row = keyHash \<and> hex_DecodeString salt = Some (ak_salt row) \<and>
           ak_id row = keyUUID \<and> ak_user_id row = resolve_user e s userID \<and>
           ak_alias row = alias \<and> ak_created_at row = now \<and>
           ak_status row = ''active'' \<and> ak_expires_at row = None \<and>
           list_ex (\<lambda>t. Team_ID t = ak_team_id row) (teams s) \<and>
           \<not> list_ex (\<lambda>k. ak_key_prefix k = keyPrefix) (api_keys s) \<and>
           APIKey_KeyHash k = keyHash \<and> APIKey_TeamID k = ak_team_id row \<and>
           APIKey_ID k = keyUUID"
proof -
  obtain teamUUID saltBytes where
    salt: "hex_DecodeString salt = Some saltBytes"
    and fresh: "\<not> list_ex (\<lambda>k. ak_key_prefix k = keyPrefix) (api_keys s)"
    and team: "list_ex (\<lambda>t. Team_ID t = teamUUID) (teams s)"
    and k: "k = \<lparr>APIKey_ID = keyUUID, APIKey_TeamID = teamUUID,
                  APIKey_UserID = resolve_user e s userID, APIKey_KeyPrefix = keyPrefix,
                  APIKey_KeyHash = keyHash, APIKey_Salt = hex_EncodeToString saltBytes,
                  APIKey_Alias = alias, APIKey_CreatedAt = now\<rparr>"
    and s': "s' = s\<lparr>api_keys := api_keys s @
                 [\<lparr>ak_id = keyUUID, ak_key_prefix = keyPrefix, ak_key_hash = keyHash,
                   ak_hash_alg = ''argon2id'', ak_salt = saltBytes, ak_team_id = teamUUID,
                   ak_user_id = resolve_user e s userID, ak_alias = alias,
                   ak_status = ''active'', ak_expires_at = None, ak_created_at = now\<rparr>]\<rparr>"
    using assms unfolding CreateAPIKey_def Let_def
    by (simp split: option.splits sum.splits if_splits)
  show ?thesis
    by (rule exI [where x = "\<lparr>ak_id = keyUUID, ak_key_prefix = keyPrefix, ak_key_hash = keyHash,
                   ak_hash_alg = ''argon2id'', ak_salt = saltBytes, ak_team_id = teamUUID,
                   ak_user_id = resolve_user e s userID, ak_alias = alias,
                   ak_status = ''active'', ak_expires_at = None, ak_created_at = now\<rparr>"])
       (simp add: salt fresh team k s')
qed

lemma keys_wf_snoc:
  assumes "keys_wf s" and "length (ak_key_prefix row) = 8"
    and "\<not> list_ex (\<lambda>k. ak_key_prefix k = ak_key_prefix row) (api_keys s)"
  shows "keys_wf (s\<lparr>api_keys := api_keys s @ [row]\<rparr>)"
  using assms by (auto simp: keys_wf_def list_ex_iff)


lemma CreateAPIKey_Inl:
  "CreateAPIKey e s keyUUID now keyPrefix keyHash salt teamID userID alias = (Inl err, s') \<Longrightarrow> s' = s"
  unfolding CreateAPIKey_def Let_def
  by (simp split: option.splits sum.splits if_splits)

lemma CreateAPIKey_clash:
  assumes "list_ex (\<lambda>k. ak_key_prefix k = keyPrefix) (api_keys s)"
  shows "\<exists>err. CreateAPIKey e s keyUUID now keyPrefix keyHash salt teamID userID alias = (Inl err, s)"
  using assms unfolding CreateAPIKey_def Let_def
  by (simp split: option.splits sum.splits)

lemma Manager_CreateTeamKey_Inr:
  assumes g: "generateAPIKey keyRead saltRead = Inr (apiKey, keyHash, salt, keyPrefix)"
    and m: "Manager_CreateTeamKey e s keyUUID now keyRead saltRead teamID req = (Inr resp, s')"
  shows "\<exists>row. s' = s\<lparr>api_keys := api_keys s @ [row]\<rparr> \<and>
           ak_key_prefix row = keyPrefix \<and> ak_key_hash row = keyHash \<and>
           hex_DecodeString salt = Some (ak_salt row) \<and>
           ak_status row = ''active'' \<and> ak_expires_at row = None \<and>
           list_ex (\<lambda>t. Team_ID t = ak_team_id row) (teams s) \<and>
           \<not> list_ex (\<lambda>k. ak_key_prefix k = keyPrefix) (api_keys s) \<and>
           CreateTeamKeyResponse_APIKey resp = apiKey \<and>
           CreateTeamKeyResponse_KeyHash resp = keyHash"
proof -
  obtain teamUUID userIDStr dbKey where
    c: "CreateAPIKey e s keyUUID now keyPrefix keyHash salt
              teamUUID userIDStr (CreateTeamKeyRequest_Alias req) = (Inr dbKey, s')"
    and r: "CreateTeamKeyResponse_APIKey resp = apiKey" "CreateTeamKeyResponse_KeyHash resp = keyHash"
    using m unfolding Manager_CreateTeamKey_def g Let_def
    by (auto split: option.splits sum.splits prod.splits)
  from CreateAPIKey_Inr [OF c] r show ?thesis by blast
qed


lemma Manager_CreateTeamKey_Inl:
  assumes "Manager_CreateTeamKey e s keyUUID now keyRead saltRead teamID req = (Inl err, s')"
  shows "s' = s"
proof (cases "generateAPIKey keyRead saltRead")
  case (Inl gerr)
  with assms show ?thesis
    unfolding Manager_CreateTeamKey_def Let_def
    by (simp split: option.splits sum.splits)
next
  case (Inr t)
  obtain apiKey keyHash salt keyPrefix where t: "t = (apiKey, keyHash, salt, keyPrefix)"
    by (cases t) auto
  from assms show ?thesis
    unfolding Manager_CreateTeamKey_def Let_def Inr t
    by (simp split: option.splits sum.splits prod.splits) (metis CreateAPIKey_Inl)
qed


lemma Manager_CreateTeamKey_clash:
  assumes g: "generateAPIKey keyRead saltRead = Inr (apiKey, keyHash, salt, keyPrefix)"
    and c: "list_ex (\<lambda>k. ak_key_prefix k = keyPrefix) (api_keys s)"
  shows "\<exists>err. Manager_CreateTeamKey e s keyUUID now keyRead saltRead teamID req = (Inl err, s)"
proof (cases "Manager_CreateTeamKey e s keyUUID now keyRead saltRead teamID req")
  case (Pair res s')
  show ?thesis
  proof (cases res)
    case (Inl err)
    with Pair Manager_CreateTeamKey_Inl [of e s keyUUID now keyRead saltRead teamID req err s']
    show ?thesis by simp
  next
    case (Inr resp)
    with Pair Manager_CreateTeamKey_Inr [OF g, of e s keyUUID now teamID req resp s'] c
    show ?thesis by blast
  qed
qed

lemma Manager_CreateTeamKey_keys_wf:
  assumes g: "generateAPIKey keyRead saltRead = Inr (apiKey, keyHash, salt, keyPrefix)"
    and l: "length keyPrefix = 8"
    and wf: "keys_wf s"
  shows "keys_wf (snd (Manager_CreateTeamKey e s keyUUID now keyRead saltRead teamID req))"
proof (cases "Manager_CreateTeamKey e s keyUUID now keyRead saltRead teamID req")
  case (Pair res s')
  show ?thesis
  proof (cases res)
    case (Inl err)
    with Pair Manager_CreateTeamKey_Inl [of e s keyUUID now keyRead saltRead teamID req err s'] wf
    show ?thesis by simp
  next
    case (Inr resp)
    with Pair Manager_CreateTeamKey_Inr [OF g, of e s keyUUID now teamID req resp s']
    obtain row where
      row: "s' = s\<lparr>api_keys := api_keys s @ [row]\<rparr>" "ak_key_prefix row = keyPrefix"
        "\<not> list_ex (\<lambda>k. ak_key_prefix k = keyPrefix) (api_keys s)"
      by blast
    have "keys_wf (s\<lparr>api_keys := api_keys s @ [row]\<rparr>)"
      by (rule keys_wf_snoc [OF wf]) (simp_all add: row l)
    with Pair row(1) show ?thesis by simp
  qed
qed


lemma minted_gen:
  "generateAPIKey (Some drawn_key) (Some drawn_salt) =
     Inr (''AAECAwQFBgcICQoLDA0ODxAREhMUFRYXGBkaGxwdHh8'',
          ''AAECAwQFBgcICQoLDA0ODxAREhMUFRYXGBkaGxwdHh8'',
          ''00112233445566778899aabbccddeeff'', ''AAECAwQF'')"
  unfolding generateAPIKey_ok minted_plaintext drawn_salt_bytes minted_salt_hex by simp

lemma minted_salt_dec:
  "hex_DecodeString ''00112233445566778899aabbccddeeff'' = Some minted_salt"
  by (simp add: fromHexChar_def minted_salt_def)

lemma demo_parse:
  "uuid_Parse demo_env ''aaaaaaaa-aaaa-4aaa-8aaa-aaaaaaaaaaaa'' =
     Some ''aaaaaaaa-aaaa-4aaa-8aaa-aaaaaaaaaaaa''"
  "uuid_Parse demo_env ''11111111-1111-4111-8111-111111111111'' =
     Some ''11111111-1111-4111-8111-111111111111''"
  by (simp_all add: demo_env_def)

lemma demo_team:
  "GetTeamByID (demo_store\<lparr>api_keys := ks\<rparr>) ''aaaaaaaa-aaaa-4aaa-8aaa-aaaaaaaaaaaa'' = Inr team_orange"
  by (simp add: GetTeamByID_def demo_store_def team_orange_def)

lemma minted_create:
  "CreateAPIKey demo_env demo_store ''cccccccc-0000-4000-8000-000000000009'' 9
     ''AAECAwQF'' ''AAECAwQFBgcICQoLDA0ODxAREhMUFRYXGBkaGxwdHh8''
     ''00112233445566778899aabbccddeeff''
     ''aaaaaaaa-aaaa-4aaa-8aaa-aaaaaaaaaaaa'' ''11111111-1111-4111-8111-111111111111'' ''phone'' =
   (Inr \<lparr>APIKey_ID = ''cccccccc-0000-4000-8000-000000000009'',
          APIKey_TeamID = ''aaaaaaaa-aaaa-4aaa-8aaa-aaaaaaaaaaaa'',
          APIKey_UserID = Some ''11111111-1111-4111-8111-111111111111'',
          APIKey_KeyPrefix = ''AAECAwQF'',
          APIKey_KeyHash = ''AAECAwQFBgcICQoLDA0ODxAREhMUFRYXGBkaGxwdHh8'',
          APIKey_Salt = ''00112233445566778899aabbccddeeff'',
          APIKey_Alias = ''phone'', APIKey_CreatedAt = 9\<rparr>,
    demo_store\<lparr>api_keys := [demo_key_row, minted_key_row]\<rparr>)"
  unfolding CreateAPIKey_def minted_salt_dec
  by (simp add: resolve_user_def demo_env_def demo_store_def alice_def team_orange_def
        demo_key_row_def minted_key_row_def minted_salt_hex Let_def)

lemma minted_mint:
  "Manager_CreateTeamKey demo_env demo_store ''cccccccc-0000-4000-8000-000000000009'' 9
     (Some drawn_key) (Some drawn_salt) ''aaaaaaaa-aaaa-4aaa-8aaa-aaaaaaaaaaaa'' demo_key_request =
   (Inr minted_key_response, demo_store\<lparr>api_keys := [demo_key_row, minted_key_row]\<rparr>)"
proof -
  have t: "GetTeamByID demo_store ''aaaaaaaa-aaaa-4aaa-8aaa-aaaaaaaaaaaa'' = Inr team_orange"
    by (simp add: GetTeamByID_def demo_store_def team_orange_def)
  show ?thesis
    unfolding Manager_CreateTeamKey_def minted_gen
    by (simp add: demo_key_request_def demo_parse t minted_create nil_UUID_def
          minted_key_response_def)
qed


section \<open>Claims about the credential mint\<close>

text \<open>
  Claim C6 says that the salt is stored hex-encoded. The insert decodes the
  hexadecimal text (\<open>decode($4, 'hex')\<close>) and the \<open>BYTEA\<close> column \<open>salt\<close> holds the 16
  bytes themselves: the row of the sample mint has a 16-byte salt, and its
  hexadecimal form has 32 characters.
\<close>

theorem C6_salt_column_counterexample:
  "Manager_CreateTeamKey demo_env demo_store ''cccccccc-0000-4000-8000-000000000009'' 9
     (Some drawn_key) (Some drawn_salt) ''aaaaaaaa-aaaa-4aaa-8aaa-aaaaaaaaaaaa'' demo_key_request =
     (Inr minted_key_response, demo_store\<lparr>api_keys := [demo_key_row, minted_key_row]\<rparr>) \<and>
   ak_salt minted_key_row = minted_salt \<and>
   length (ak_salt minted_key_row) = 16 \<and>
   hex_EncodeToString minted_salt = ''00112233445566778899aabbccddeeff'' \<and>
   string_of_bytes (ak_salt minted_key_row) \<noteq> hex_EncodeToString minted_salt"
proof -
  have a: "ak_salt minted_key_row = minted_salt" by (simp add: minted_key_row_def)
  have l: "length minted_salt = 16" by (simp add: minted_salt_def)
  have "length (string_of_bytes minted_salt) = 16" by (simp add: string_of_bytes_def l)
  moreover have "length (hex_EncodeToString minted_salt) = 32"
    by (simp add: hex_EncodeToString_length l)
  ultimately have "string_of_bytes minted_salt \<noteq> hex_EncodeToString minted_salt" by auto
  with a l minted_mint minted_salt_hex show ?thesis by simp
qed

text \<open>
  Claim C6, as the code has it. The plaintext of a minted credential is the unpadded
  URL-safe base64 encoding of the 32 bytes that \<open>crypto/rand\<close> writes into the key
  buffer: 43 characters of the URL-safe alphabet. The prefix is its first 8 characters
  and the hash is the plaintext itself. The salt is the 16 bytes of the second read;
  it travels as 32 hexadecimal digits and the row stores the 16 decoded bytes. A
  successful \<open>CreateTeamKey\<close> appends exactly one row with these values; a prefix that
  is already in the table makes it fail and leaves the store as it was; so prefixes
  stay 8 characters long and pairwise different.
\<close>

theorem C6_minted_credential:
  fixes keyDrawn saltDrawn :: "nat \<Rightarrow> byte"
  defines "B \<equiv> base64_RawURLEncoding_EncodeToString (map keyDrawn [0..<32])"
    and "S \<equiv> map saltDrawn [0..<16]"
  shows "generateAPIKey (Some keyDrawn) (Some saltDrawn) =
           Inr (B, B, hex_EncodeToString S, take 8 B) \<and>
         length B = 43 \<and> set B \<subseteq> set encodeURL \<and> length (take 8 B) = 8 \<and>
         length S = 16 \<and> length (hex_EncodeToString S) = 32 \<and>
         hex_DecodeString (hex_EncodeToString S) = Some S \<and>
         (keys_wf s \<longrightarrow>
            keys_wf (snd (Manager_CreateTeamKey e s keyUUID now (Some keyDrawn) (Some saltDrawn)
                            teamID req))) \<and>
         (Manager_CreateTeamKey e s keyUUID now (Some keyDrawn) (Some saltDrawn) teamID req
            = (Inr resp, s') \<longrightarrow>
          CreateTeamKeyResponse_APIKey resp = B \<and>
          (\<exists>row. api_keys s' = api_keys s @ [row] \<and> ak_key_prefix row = take 8 B \<and>
                 ak_key_hash row = B \<and> ak_salt row = S)) \<and>
         (list_ex (\<lambda>k. ak_key_prefix k = take 8 B) (api_keys s) \<longrightarrow>
          (\<exists>err. Manager_CreateTeamKey e s keyUUID now (Some keyDrawn) (Some saltDrawn) teamID req
                   = (Inl err, s)))"
proof -
  have g: "generateAPIKey (Some keyDrawn) (Some saltDrawn) =
             Inr (B, B, hex_EncodeToString S, take 8 B)"
    unfolding B_def S_def by (rule generateAPIKey_ok)
  have lB: "length B = 43" unfolding B_def by (rule minted_length)
  then have l8: "length (take 8 B) = 8" by simp
  have aB: "set B \<subseteq> set encodeURL" unfolding B_def by (rule base64_alphabet)
  have lS: "length S = 16" unfolding S_def by simp
  then have lH: "length (hex_EncodeToString S) = 32" by (simp add: hex_EncodeToString_length)
  have wf: "keys_wf (snd (Manager_CreateTeamKey e s keyUUID now (Some keyDrawn) (Some saltDrawn)
                            teamID req))" if "keys_wf s"
    by (rule Manager_CreateTeamKey_keys_wf [OF g l8 that])
  have ok: "CreateTeamKeyResponse_APIKey resp = B \<and>
          (\<exists>row. api_keys s' = api_keys s @ [row] \<and> ak_key_prefix row = take 8 B \<and>
                 ak_key_hash row = B \<and> ak_salt row = S)"
    if m: "Manager_CreateTeamKey e s keyUUID now (Some keyDrawn) (Some saltDrawn) teamID req
            = (Inr resp, s')"
  proof -
    from Manager_CreateTeamKey_Inr [OF g m] obtain row where
      row: "s' = s\<lparr>api_keys := api_keys s @ [row]\<rparr>" "ak_key_prefix row = take 8 B"
        "ak_key_hash row = B" "hex_DecodeString (hex_EncodeToString S) = Some (ak_salt row)"
        "CreateTeamKeyResponse_APIKey resp = B"
      by blast
    from row(4) have "ak_salt row = S" by (simp add: hex_roundtrip)
    with row show ?thesis by auto
  qed
  have clash: "\<exists>err. Manager_CreateTeamKey e s keyUUID now (Some keyDrawn) (Some saltDrawn) teamID req
                   = (Inl err, s)"
    if "list_ex (\<lambda>k. ak_key_prefix k = take 8 B) (api_keys s)"
    by (rule Manager_CreateTeamKey_clash [OF g that])
  from g lB aB l8 lS lH wf ok clash show ?thesis
    by (simp only: hex_roundtrip simp_thms) blast
qed


theorem C6_minted_credential_witness:
  "keys_wf demo_store \<and>
   Manager_CreateTeamKey demo_env demo_store ''cccccccc-0000-4000-8000-000000000009'' 9
     (Some drawn_key) (Some drawn_salt) ''aaaaaaaa-aaaa-4aaa-8aaa-aaaaaaaaaaaa'' demo_key_request =
     (Inr minted_key_response, demo_store\<lparr>api_keys := [demo_key_row, minted_key_row]\<rparr>) \<and>
   keys_wf (demo_store\<lparr>api_keys := [demo_key_row, minted_key_row]\<rparr>) \<and>
   CreateTeamKeyResponse_APIKey minted_key_response =
     base64_RawURLEncoding_EncodeToString (map drawn_key [0..<32]) \<and>
   length (CreateTeamKeyResponse_APIKey minted_key_response) = 43 \<and>
   list_ex (\<lambda>k. ak_key_prefix k =
              take 8 (base64_RawURLEncoding_EncodeToString (map drawn_key [0..<32])))
     (api_keys (demo_store\<lparr>api_keys := [demo_key_row, minted_key_row]\<rparr>)) \<and>
   (\<exists>err. Manager_CreateTeamKey demo_env (demo_store\<lparr>api_keys := [demo_key_row, minted_key_row]\<rparr>)
            ''cccccccc-0000-4000-8000-00000000000a'' 10 (Some drawn_key) (Some drawn_salt)
            ''aaaaaaaa-aaaa-4aaa-8aaa-aaaaaaaaaaaa'' demo_key_request =
            (Inl err, demo_store\<lparr>api_keys := [demo_key_row, minted_key_row]\<rparr>))"
proof -
  let ?s1 = "demo_store\<lparr>api_keys := [demo_key_row, minted_key_row]\<rparr>"
  have h1: "keys_wf demo_store"
    by (simp add: keys_wf_def demo_store_def demo_key_row_def)
  note h2 = minted_mint
  have h3: "list_ex (\<lambda>k. ak_key_prefix k =
              take 8 (base64_RawURLEncoding_EncodeToString (map drawn_key [0..<32])))
     (api_keys ?s1)"
    unfolding minted_plaintext by (simp add: minted_key_row_def)
  note t1 = C6_minted_credential [of drawn_key drawn_salt demo_store demo_env
         "''cccccccc-0000-4000-8000-000000000009''" 9 "''aaaaaaaa-aaaa-4aaa-8aaa-aaaaaaaaaaaa''"
         demo_key_request minted_key_response ?s1]
  note t2 = C6_minted_credential [of drawn_key drawn_salt ?s1 demo_env
         "''cccccccc-0000-4000-8000-00000000000a''" 10 "''aaaaaaaa-aaaa-4aaa-8aaa-aaaaaaaaaaaa''"
         demo_key_request minted_key_response ?s1]
  from t1 h1 h2 have a: "keys_wf ?s1"
    "CreateTeamKeyResponse_APIKey minted_key_response =
       base64_RawURLEncoding_EncodeToString (map drawn_key [0..<32])"
    "length (base64_RawURLEncoding_EncodeToString (map drawn_key [0..<32])) = 43"
    by (metis snd_conv)+
  from t2 h3 have b: "\<exists>err. Manager_CreateTeamKey demo_env ?s1
            ''cccccccc-0000-4000-8000-00000000000a'' 10 (Some drawn_key) (Some drawn_salt)
            ''aaaaaaaa-aaaa-4aaa-8aaa-aaaaaaaaaaaa'' demo_key_request = (Inl err, ?s1)"
    by blast
  from a(2,3) have c: "length (CreateTeamKeyResponse_APIKey minted_key_response) = 43"
    by (simp only:)
  from h1 h2 h3 a b c show ?thesis by blast
qed

section \<open>Claims about the introspection endpoint\<close>

lemmas demo_km_defs = demo_km_store_def km_team_orange_def free_policy_def qwen_def bob_grant_def
  alice_member_def bob_member_def revoked_key_row_def service_key_row_def demo_key_row_def

lemmas introspect_defs = Introspect_def bind_IntrospectRequest_def Values_Get_def resolve_key_def
  GetAPIKeyByPrefix_def verifyAPIKey_def HasPrefix_def backslash_x_def effective_user_def
  IsTeamMember_def GetTeam_def GetPolicy_def km_GetUserModelsAllowed_def
  GetUserModelsAllowed_rows_def join_grants_def GetUserModelsAllowed_where_def inactive_def
  form_body_def Let_def

lemma eval_alice:
  "Introspect demo_km_store (form_body ''AAAAAAAAAAAAAAAAAAAAAAAAAAAAAAAAAAAAAAAAAAA'' []) =
     (200, \<lparr>IntrospectResponse_Active = True,
            IntrospectResponse_APIKeyID = ''cccccccc-0000-4000-8000-000000000001'',
            IntrospectResponse_TeamID = ''aaaaaaaa-aaaa-4aaa-8aaa-aaaaaaaaaaaa'',
            IntrospectResponse_UserID = ''11111111-1111-4111-8111-111111111111'',
            IntrospectResponse_Group = ''plan:free-5-2min'',
            IntrospectResponse_ModelsAllowed = [''qwen3-0.6b-instruct''],
            IntrospectResponse_PolicyID = ''bbbbbbbb-bbbb-4bbb-8bbb-bbbbbbbbbbbb'',
            IntrospectResponse_Error = []\<rparr>)"
  by (simp add: introspect_defs demo_km_defs)

lemma eval_revoked:
  "Introspect demo_km_store (form_body ''BBBBBBBBBBBBBBBBBBBBBBBBBBBBBBBBBBBBBBBBBBB'' []) =
     (200, \<lparr>IntrospectResponse_Active = True,
            IntrospectResponse_APIKeyID = ''cccccccc-0000-4000-8000-000000000002'',
            IntrospectResponse_TeamID = ''aaaaaaaa-aaaa-4aaa-8aaa-aaaaaaaaaaaa'',
            IntrospectResponse_UserID = ''11111111-1111-4111-8111-111111111111'',
            IntrospectResponse_Group = ''plan:free-5-2min'',
            IntrospectResponse_ModelsAllowed = [''qwen3-0.6b-instruct''],
            IntrospectResponse_PolicyID = ''bbbbbbbb-bbbb-4bbb-8bbb-bbbbbbbbbbbb'',
            IntrospectResponse_Error = []\<rparr>)"
  by (simp add: introspect_defs demo_km_defs)

lemma eval_short:
  "Introspect demo_km_store (form_body ''AAAAAAA'' []) = (401, inactive ''invalid_key'')"
  by (simp add: introspect_defs demo_km_defs)

lemma eval_service_no_runas:
  "Introspect demo_km_store (form_body ''CCCCCCCCCCCCCCCCCCCCCCCCCCCCCCCCCCCCCCCCCCC'' []) =
     (403, inactive ''run_as_required'')"
  by (simp add: introspect_defs demo_km_defs)

lemma inactive_not_active: "\<not> IntrospectResponse_Active (inactive err)"
  by (simp add: inactive_def)

lemma effective_user_Inl:
  assumes "effective_user s apiKey req = Inl reply"
  shows "reply = (403, inactive ''run_as_required'') \<or>
         reply = (403, inactive ''run_as_not_member'')"
  using assms
  by (auto simp: effective_user_def IsTeamMember_def split: if_splits bool.splits)

lemma effective_user_Inl_inactive:
  "effective_user s apiKey req = Inl (st, r) \<Longrightarrow> st = 403 \<and> \<not> IntrospectResponse_Active r"
  using effective_user_Inl [of s apiKey req "(st, r)"] inactive_not_active by auto

lemma resolve_key_active:
  assumes "IntrospectResponse_Active (snd (resolve_key s req))"
  shows "\<exists>apiKey effectiveUserID team policyID policy.
           8 \<le> length (IntrospectRequest_Token req) \<and>
           GetAPIKeyByPrefix s (take 8 (IntrospectRequest_Token req)) = Inr apiKey \<and>
           verifyAPIKey (IntrospectRequest_Token req) (APIKey_KeyHash apiKey) (APIKey_Salt apiKey) \<and>
           effective_user s apiKey req = Inr effectiveUserID \<and>
           GetTeam s (APIKey_TeamID apiKey) = Inr team \<and>
           km_Team_DefaultPolicyID team = Some policyID \<and>
           GetPolicy s policyID = Inr policy \<and>
           resolve_key s req =
             (200, \<lparr>IntrospectResponse_Active = True,
                    IntrospectResponse_APIKeyID = APIKey_ID apiKey,
                    IntrospectResponse_TeamID = APIKey_TeamID apiKey,
                    IntrospectResponse_UserID =
                      (case effectiveUserID of Some u \<Rightarrow> u | None \<Rightarrow> []),
                    IntrospectResponse_Group = ''plan:'' @ Policy_Name policy,
                    IntrospectResponse_ModelsAllowed =
                      GetUserModelsAllowed_rows (km_models s) (km_model_grants s)
                        (case effectiveUserID of Some u \<Rightarrow> u | None \<Rightarrow> [])
                        (APIKey_TeamID apiKey),
                    IntrospectResponse_PolicyID = policyID,
                    IntrospectResponse_Error = []\<rparr>)"
  using assms unfolding resolve_key_def Let_def km_GetUserModelsAllowed_def
  by (auto simp: inactive_not_active dest: effective_user_Inl_inactive
        split: if_splits sum.splits option.splits prod.splits)

lemma resolve_key_status:
  "IntrospectResponse_Active (snd (resolve_key s req)) \<longleftrightarrow> fst (resolve_key s req) = 200"
  unfolding resolve_key_def Let_def km_GetUserModelsAllowed_def
  by (auto simp: inactive_not_active dest: effective_user_Inl_inactive
        split: if_splits sum.splits option.splits prod.splits)

lemma Introspect_status:
  "IntrospectResponse_Active (snd (Introspect s body)) \<longleftrightarrow> fst (Introspect s body) = 200"
proof (cases "bind_IntrospectRequest body")
  case (Inl reply)
  then have "reply = (400, inactive ''invalid_request'')"
    by (auto simp: bind_IntrospectRequest_def Let_def split: option.splits if_splits)
  with Inl show ?thesis by (simp add: Introspect_def inactive_not_active)
next
  case (Inr req)
  then show ?thesis by (simp add: Introspect_def resolve_key_status)
qed

lemma Introspect_Inr:
  "bind_IntrospectRequest body = Inr req \<Longrightarrow> Introspect s body = resolve_key s req"
  by (simp add: Introspect_def)

text \<open>
  Claim C1 asks for HTTP 200 on every negative answer. A 7-character token is
  answered with 401.
\<close>

theorem C1_short_token_counterexample:
  "Introspect demo_km_store (form_body ''AAAAAAA'' []) = (401, inactive ''invalid_key'') \<and>
   fst (Introspect demo_km_store (form_body ''AAAAAAA'' [])) \<noteq> 200"
  by (simp add: eval_short)

text \<open>
  Claim C1, as the code has it. A token that is shorter than 8 characters, whose
  prefix is unknown or that fails the comparison with the stored hash gets HTTP 401
  with \<open>active = false\<close> and the error \<open>invalid_key\<close>, the same reply for all
  three; a request without a token gets HTTP 400 with \<open>active = false\<close> and the
  error \<open>invalid_request\<close>; and every reply whose status is not 200 has
  \<open>active = false\<close>.
\<close>

theorem C1_negative_replies:
  "(bind_IntrospectRequest body = Inr req \<and>
    (length (IntrospectRequest_Token req) < 8 \<or>
     (\<exists>err. GetAPIKeyByPrefix s (take 8 (IntrospectRequest_Token req)) = Inl err) \<or>
     (\<exists>apiKey. GetAPIKeyByPrefix s (take 8 (IntrospectRequest_Token req)) = Inr apiKey \<and>
        \<not> verifyAPIKey (IntrospectRequest_Token req) (APIKey_KeyHash apiKey)
             (APIKey_Salt apiKey)))
    \<longrightarrow> Introspect s body = (401, inactive ''invalid_key'')) \<and>
   ((\<exists>reply. bind_IntrospectRequest body = Inl reply)
    \<longrightarrow> Introspect s body = (400, inactive ''invalid_request'')) \<and>
   (fst (Introspect s body) \<noteq> 200 \<longrightarrow> \<not> IntrospectResponse_Active (snd (Introspect s body)))"
proof (intro conjI impI)
  assume a: "bind_IntrospectRequest body = Inr req \<and>
    (length (IntrospectRequest_Token req) < 8 \<or>
     (\<exists>err. GetAPIKeyByPrefix s (take 8 (IntrospectRequest_Token req)) = Inl err) \<or>
     (\<exists>apiKey. GetAPIKeyByPrefix s (take 8 (IntrospectRequest_Token req)) = Inr apiKey \<and>
        \<not> verifyAPIKey (IntrospectRequest_Token req) (APIKey_KeyHash apiKey)
             (APIKey_Salt apiKey)))"
  then have "resolve_key s req = (401, inactive ''invalid_key'')"
    by (auto simp: resolve_key_def Let_def)
  with a show "Introspect s body = (401, inactive ''invalid_key'')"
    by (simp add: Introspect_Inr)
next
  assume "\<exists>reply. bind_IntrospectRequest body = Inl reply"
  then obtain reply where r: "bind_IntrospectRequest body = Inl reply" ..
  then have "reply = (400, inactive ''invalid_request'')"
    by (auto simp: bind_IntrospectRequest_def Let_def split: option.splits if_splits)
  with r show "Introspect s body = (400, inactive ''invalid_request'')"
    by (simp add: Introspect_def)
next
  assume "fst (Introspect s body) \<noteq> 200"
  then show "\<not> IntrospectResponse_Active (snd (Introspect s body))"
    by (simp add: Introspect_status)
qed

lemma bind_form_body:
  "token \<noteq> [] \<Longrightarrow> bind_IntrospectRequest (form_body token run_as) =
     Inr \<lparr>IntrospectRequest_Token = token, IntrospectRequest_RunAsUserID = run_as\<rparr>"
  by (simp add: bind_IntrospectRequest_def form_body_def Values_Get_def Let_def)

lemma bind_form_body_empty:
  "bind_IntrospectRequest (form_body [] []) = Inl (400, inactive ''invalid_request'')"
  by (simp add: bind_IntrospectRequest_def form_body_def Values_Get_def Let_def)

lemma GetAPIKeyByPrefix_unknown:
  "GetAPIKeyByPrefix demo_km_store ''ZZZZZZZZ'' = Inl ''api key not found with prefix: ZZZZZZZZ''"
  by (simp add: GetAPIKeyByPrefix_def demo_km_defs)

lemma GetAPIKeyByPrefix_alice:
  "GetAPIKeyByPrefix demo_km_store ''AAAAAAAA'' =
     Inr \<lparr>APIKey_ID = ''cccccccc-0000-4000-8000-000000000001'',
          APIKey_TeamID = ''aaaaaaaa-aaaa-4aaa-8aaa-aaaaaaaaaaaa'',
          APIKey_UserID = Some ''11111111-1111-4111-8111-111111111111'',
          APIKey_KeyPrefix = ''AAAAAAAA'',
          APIKey_KeyHash = ''AAAAAAAAAAAAAAAAAAAAAAAAAAAAAAAAAAAAAAAAAAA'',
          APIKey_Salt = string_of_bytes zeros16, APIKey_Alias = [], APIKey_CreatedAt = 7\<rparr>"
  by (simp add: GetAPIKeyByPrefix_def demo_km_defs)

theorem C1_negative_replies_witness:
  "bind_IntrospectRequest (form_body ''AAAAAAA'' []) =
     Inr \<lparr>IntrospectRequest_Token = ''AAAAAAA'', IntrospectRequest_RunAsUserID = []\<rparr> \<and>
   Introspect demo_km_store (form_body ''AAAAAAA'' []) = (401, inactive ''invalid_key'') \<and>
   GetAPIKeyByPrefix demo_km_store (take 8 ''ZZZZZZZZ_not_real'') =
     Inl ''api key not found with prefix: ZZZZZZZZ'' \<and>
   Introspect demo_km_store (form_body ''ZZZZZZZZ_not_real'' []) = (401, inactive ''invalid_key'') \<and>
   \<not> verifyAPIKey ''AAAAAAAA_forged'' ''AAAAAAAAAAAAAAAAAAAAAAAAAAAAAAAAAAAAAAAAAAA''
        (string_of_bytes zeros16) \<and>
   Introspect demo_km_store (form_body ''AAAAAAAA_forged'' []) = (401, inactive ''invalid_key'') \<and>
   bind_IntrospectRequest (form_body [] []) = Inl (400, inactive ''invalid_request'') \<and>
   Introspect demo_km_store (form_body [] []) = (400, inactive ''invalid_request'') \<and>
   \<not> IntrospectResponse_Active (snd (Introspect demo_km_store (form_body [] [])))"
proof -
  have b1: "bind_IntrospectRequest (form_body ''AAAAAAA'' []) =
     Inr \<lparr>IntrospectRequest_Token = ''AAAAAAA'', IntrospectRequest_RunAsUserID = []\<rparr>"
    by (simp add: bind_form_body)
  have b2: "bind_IntrospectRequest (form_body ''ZZZZZZZZ_not_real'' []) =
     Inr \<lparr>IntrospectRequest_Token = ''ZZZZZZZZ_not_real'', IntrospectRequest_RunAsUserID = []\<rparr>"
    by (simp add: bind_form_body)
  have b3: "bind_IntrospectRequest (form_body ''AAAAAAAA_forged'' []) =
     Inr \<lparr>IntrospectRequest_Token = ''AAAAAAAA_forged'', IntrospectRequest_RunAsUserID = []\<rparr>"
    by (simp add: bind_form_body)
  have u: "GetAPIKeyByPrefix demo_km_store (take 8 ''ZZZZZZZZ_not_real'') =
     Inl ''api key not found with prefix: ZZZZZZZZ''"
    by (simp add: GetAPIKeyByPrefix_unknown)
  have k: "GetAPIKeyByPrefix demo_km_store (take 8 ''AAAAAAAA_forged'') =
     Inr \<lparr>APIKey_ID = ''cccccccc-0000-4000-8000-000000000001'',
          APIKey_TeamID = ''aaaaaaaa-aaaa-4aaa-8aaa-aaaaaaaaaaaa'',
          APIKey_UserID = Some ''11111111-1111-4111-8111-111111111111'',
          APIKey_KeyPrefix = ''AAAAAAAA'',
          APIKey_KeyHash = ''AAAAAAAAAAAAAAAAAAAAAAAAAAAAAAAAAAAAAAAAAAA'',
          APIKey_Salt = string_of_bytes zeros16, APIKey_Alias = [], APIKey_CreatedAt = 7\<rparr>"
    by (simp add: GetAPIKeyByPrefix_alice)
  have v: "\<not> verifyAPIKey ''AAAAAAAA_forged'' ''AAAAAAAAAAAAAAAAAAAAAAAAAAAAAAAAAAAAAAAAAAA''
        (string_of_bytes zeros16)"
    by (simp add: verifyAPIKey_def HasPrefix_def backslash_x_def)
  have e: "bind_IntrospectRequest (form_body [] []) = Inl (400, inactive ''invalid_request'')"
    by (rule bind_form_body_empty)
  have r1: "Introspect demo_km_store (form_body ''AAAAAAA'' []) = (401, inactive ''invalid_key'')"
    using C1_negative_replies [of "form_body ''AAAAAAA'' []"
        "\<lparr>IntrospectRequest_Token = ''AAAAAAA'', IntrospectRequest_RunAsUserID = []\<rparr>"
        demo_km_store] b1 by simp
  have r2: "Introspect demo_km_store (form_body ''ZZZZZZZZ_not_real'' []) =
              (401, inactive ''invalid_key'')"
    using C1_negative_replies [of "form_body ''ZZZZZZZZ_not_real'' []"
        "\<lparr>IntrospectRequest_Token = ''ZZZZZZZZ_not_real'', IntrospectRequest_RunAsUserID = []\<rparr>"
        demo_km_store] b2 u by simp
  have r3: "Introspect demo_km_store (form_body ''AAAAAAAA_forged'' []) =
              (401, inactive ''invalid_key'')"
    using C1_negative_replies [of "form_body ''AAAAAAAA_forged'' []"
        "\<lparr>IntrospectRequest_Token = ''AAAAAAAA_forged'', IntrospectRequest_RunAsUserID = []\<rparr>"
        demo_km_store] b3 k v by simp
  have r4: "Introspect demo_km_store (form_body [] []) = (400, inactive ''invalid_request'') \<and>
            \<not> IntrospectResponse_Active (snd (Introspect demo_km_store (form_body [] [])))"
    using C1_negative_replies [of "form_body [] []"
        "\<lparr>IntrospectRequest_Token = [], IntrospectRequest_RunAsUserID = []\<rparr>"
        demo_km_store] e by auto
  have u': "GetAPIKeyByPrefix demo_km_store (take 8 ''ZZZZZZZZ_not_real'') =
     Inl ''api key not found with prefix: ZZZZZZZZ''"
    by (rule u)
  show ?thesis using b1 u' v e r1 r2 r3 r4 by blast
qed

lemma find_map_row:
  "find P (map f xs) = map_option f (find (\<lambda>x. P (f x)) xs)"
  by (induction xs) simp_all

lemma GetAPIKeyByPrefix_ignores_status:
  "GetAPIKeyByPrefix
     (s\<lparr>km_api_keys := map (\<lambda>k. k\<lparr>ak_status := st k, ak_expires_at := ex k\<rparr>) (km_api_keys s)\<rparr>)
     prefix = GetAPIKeyByPrefix s prefix"
  by (simp add: GetAPIKeyByPrefix_def find_map_row split: option.splits)

lemma effective_user_ignores_status:
  "effective_user
     (s\<lparr>km_api_keys := map (\<lambda>k. k\<lparr>ak_status := st k, ak_expires_at := ex k\<rparr>) (km_api_keys s)\<rparr>)
     apiKey req = effective_user s apiKey req"
  unfolding effective_user_def IsTeamMember_def by simp

lemma other_tables_ignore_status:
  "effective_user
     (s\<lparr>km_api_keys := map (\<lambda>k. k\<lparr>ak_status := st k, ak_expires_at := ex k\<rparr>) (km_api_keys s)\<rparr>)
     = effective_user s"
  "GetTeam
     (s\<lparr>km_api_keys := map (\<lambda>k. k\<lparr>ak_status := st k, ak_expires_at := ex k\<rparr>) (km_api_keys s)\<rparr>)
     = GetTeam s"
  "GetPolicy
     (s\<lparr>km_api_keys := map (\<lambda>k. k\<lparr>ak_status := st k, ak_expires_at := ex k\<rparr>) (km_api_keys s)\<rparr>)
     = GetPolicy s"
  "km_GetUserModelsAllowed
     (s\<lparr>km_api_keys := map (\<lambda>k. k\<lparr>ak_status := st k, ak_expires_at := ex k\<rparr>) (km_api_keys s)\<rparr>)
     = km_GetUserModelsAllowed s"
proof -
  show "effective_user
     (s\<lparr>km_api_keys := map (\<lambda>k. k\<lparr>ak_status := st k, ak_expires_at := ex k\<rparr>) (km_api_keys s)\<rparr>)
     = effective_user s"
    by (intro ext) (rule effective_user_ignores_status)
qed (simp_all add: fun_eq_iff GetTeam_def GetPolicy_def km_GetUserModelsAllowed_def)

lemma resolve_key_ignores_status:
  "resolve_key
     (s\<lparr>km_api_keys := map (\<lambda>k. k\<lparr>ak_status := st k, ak_expires_at := ex k\<rparr>) (km_api_keys s)\<rparr>)
     req = resolve_key s req"
  unfolding resolve_key_def GetAPIKeyByPrefix_ignores_status other_tables_ignore_status
  by (rule refl)

text \<open>
  Claim C2 fails on the code: \<open>GetAPIKeyByPrefix\<close> selects neither \<open>status\<close> nor
  \<open>expires_at\<close> and \<open>Introspect\<close> never compares them, so the answer is the same
  whatever the two columns hold. The sample key with \<open>status = revoked\<close> and an
  \<open>expires_at\<close> of 5 (any later clock reading lies past it) is answered with HTTP 200
  and \<open>active = true\<close>.
\<close>

theorem C2_revoked_key_is_active:
  "Introspect
     (s\<lparr>km_api_keys := map (\<lambda>k. k\<lparr>ak_status := st k, ak_expires_at := ex k\<rparr>) (km_api_keys s)\<rparr>)
     body = Introspect s body \<and>
   ak_status revoked_key_row = ''revoked'' \<and> ak_expires_at revoked_key_row = Some 5 \<and>
   ak_key_hash revoked_key_row = ''BBBBBBBBBBBBBBBBBBBBBBBBBBBBBBBBBBBBBBBBBBB'' \<and>
   km_api_keys demo_km_store = [demo_key_row, revoked_key_row, service_key_row] \<and>
   Introspect demo_km_store (form_body ''BBBBBBBBBBBBBBBBBBBBBBBBBBBBBBBBBBBBBBBBBBB'' []) =
     (200, \<lparr>IntrospectResponse_Active = True,
            IntrospectResponse_APIKeyID = ''cccccccc-0000-4000-8000-000000000002'',
            IntrospectResponse_TeamID = ''aaaaaaaa-aaaa-4aaa-8aaa-aaaaaaaaaaaa'',
            IntrospectResponse_UserID = ''11111111-1111-4111-8111-111111111111'',
            IntrospectResponse_Group = ''plan:free-5-2min'',
            IntrospectResponse_ModelsAllowed = [''qwen3-0.6b-instruct''],
            IntrospectResponse_PolicyID = ''bbbbbbbb-bbbb-4bbb-8bbb-bbbbbbbbbbbb'',
            IntrospectResponse_Error = []\<rparr>)"
proof -
  have "Introspect
     (s\<lparr>km_api_keys := map (\<lambda>k. k\<lparr>ak_status := st k, ak_expires_at := ex k\<rparr>) (km_api_keys s)\<rparr>)
     body = Introspect s body"
    unfolding Introspect_def resolve_key_ignores_status by (rule refl)
  moreover have "ak_status revoked_key_row = ''revoked''" "ak_expires_at revoked_key_row = Some 5"
    "ak_key_hash revoked_key_row = ''BBBBBBBBBBBBBBBBBBBBBBBBBBBBBBBBBBBBBBBBBBB''"
    by (simp_all add: revoked_key_row_def)
  moreover have "km_api_keys demo_km_store = [demo_key_row, revoked_key_row, service_key_row]"
    by (simp add: demo_km_store_def)
  ultimately show ?thesis using eval_revoked by blast
qed

lemma GetUserModelsAllowed_where_team:
  "GetUserModelsAllowed_where userID teamID mg = (ModelGrant_TeamID mg = teamID)"
  by (auto simp: GetUserModelsAllowed_where_def)

lemma GetUserModelsAllowed_rows_any_user:
  "GetUserModelsAllowed_rows ms gs userID teamID = GetUserModelsAllowed_rows ms gs userID' teamID"
  by (simp add: GetUserModelsAllowed_rows_def GetUserModelsAllowed_where_team)

text \<open>
  Claim C7 fails on the code: the condition of \<open>GetUserModelsAllowed\<close>,
  \<open>mg.team_id = $1 OR (mg.team_id = $1 AND mg.user_id = $2)\<close>, holds for every
  grant of the team, so the list is the same for every user. In the sample store the
  only grant is one for the second member; the first member is allowed the model all
  the same, by the repository function and in the introspection response, while the
  sibling query \<open>GetUserModelAccess\<close> returns nothing for the first member.
\<close>

theorem C7_grant_of_another_user_is_allowed:
  "GetUserModelsAllowed s userID teamID = GetUserModelsAllowed s userID' teamID \<and>
   model_grants grant_store = [bob_grant] \<and>
   ModelGrant_UserID bob_grant = Some ''22222222-2222-4222-8222-222222222222'' \<and>
   GetUserModelsAllowed grant_store ''11111111-1111-4111-8111-111111111111''
     ''aaaaaaaa-aaaa-4aaa-8aaa-aaaaaaaaaaaa'' = [''qwen3-0.6b-instruct''] \<and>
   GetUserModelAccess grant_store ''11111111-1111-4111-8111-111111111111''
     ''aaaaaaaa-aaaa-4aaa-8aaa-aaaaaaaaaaaa'' = [] \<and>
   km_model_grants demo_km_store = [bob_grant] \<and>
   IntrospectResponse_UserID
     (snd (Introspect demo_km_store (form_body ''AAAAAAAAAAAAAAAAAAAAAAAAAAAAAAAAAAAAAAAAAAA'' [])))
     = ''11111111-1111-4111-8111-111111111111'' \<and>
   IntrospectResponse_ModelsAllowed
     (snd (Introspect demo_km_store (form_body ''AAAAAAAAAAAAAAAAAAAAAAAAAAAAAAAAAAAAAAAAAAA'' [])))
     = [''qwen3-0.6b-instruct'']"
proof -
  have a: "GetUserModelsAllowed s userID teamID = GetUserModelsAllowed s userID' teamID"
    unfolding GetUserModelsAllowed_def by (rule GetUserModelsAllowed_rows_any_user)
  have b: "model_grants grant_store = [bob_grant]"
    "ModelGrant_UserID bob_grant = Some ''22222222-2222-4222-8222-222222222222''"
    "km_model_grants demo_km_store = [bob_grant]"
    by (simp_all add: grant_store_def bob_grant_def demo_km_store_def)
  have c: "GetUserModelsAllowed grant_store ''11111111-1111-4111-8111-111111111111''
     ''aaaaaaaa-aaaa-4aaa-8aaa-aaaaaaaaaaaa'' = [''qwen3-0.6b-instruct'']"
    by (simp add: GetUserModelsAllowed_def GetUserModelsAllowed_rows_def join_grants_def
          GetUserModelsAllowed_where_def grant_store_def bob_grant_def qwen_def)
  have d: "GetUserModelAccess grant_store ''11111111-1111-4111-8111-111111111111''
     ''aaaaaaaa-aaaa-4aaa-8aaa-aaaaaaaaaaaa'' = []"
    by (simp add: GetUserModelAccess_def join_grants_def grant_store_def bob_grant_def qwen_def)
  have e: "IntrospectResponse_UserID
     (snd (Introspect demo_km_store (form_body ''AAAAAAAAAAAAAAAAAAAAAAAAAAAAAAAAAAAAAAAAAAA'' [])))
     = ''11111111-1111-4111-8111-111111111111''"
    "IntrospectResponse_ModelsAllowed
     (snd (Introspect demo_km_store (form_body ''AAAAAAAAAAAAAAAAAAAAAAAAAAAAAAAAAAAAAAAAAAA'' [])))
     = [''qwen3-0.6b-instruct'']"
    by (simp_all add: eval_alice)
  from a b c d e show ?thesis by blast
qed

lemma Split_comma_not_Nil: "Split_comma s \<noteq> []"
  by (induction s) (auto split: list.splits)

lemma hd_Split_comma_Cons:
  "c \<noteq> CHR '','' \<Longrightarrow> hd (Split_comma (c # cs)) = c # hd (Split_comma cs)"
  using Split_comma_not_Nil [of cs] by (cases "Split_comma cs") simp_all

lemma hd_Split_comma_plan: "take 5 (hd (Split_comma (''plan:'' @ name))) = ''plan:''"
  by (simp add: hd_Split_comma_Cons del: Split_comma.simps)

lemma GetPolicy_Inr: "GetPolicy s policyID = Inr policy \<Longrightarrow> Policy_ID policy = policyID"
  by (auto simp: GetPolicy_def find_Some_iff split: option.splits)

lemma GetTeam_Inr: "GetTeam s teamID = Inr team \<Longrightarrow> km_Team_ID team = teamID"
  by (auto simp: GetTeam_def find_Some_iff split: option.splits)

lemma Introspect_active:
  assumes "IntrospectResponse_Active (snd (Introspect s body))"
  shows "\<exists>req. bind_IntrospectRequest body = Inr req \<and> Introspect s body = resolve_key s req \<and>
               IntrospectResponse_Active (snd (resolve_key s req))"
proof (cases "bind_IntrospectRequest body")
  case (Inl reply)
  then have "reply = (400, inactive ''invalid_request'')"
    by (auto simp: bind_IntrospectRequest_def Let_def split: option.splits if_splits)
  with Inl assms show ?thesis by (simp add: Introspect_def inactive_not_active)
next
  case (Inr req)
  with assms show ?thesis by (simp add: Introspect_def)
qed

text \<open>
  Claim C3 asks for a \<open>groups\<close> claim that holds the tenant's \<open>ext_id\<close> and starts
  with the returned \<open>team_id\<close>. The response of \<open>Introspect\<close> has the field \<open>group\<close>
  and none called \<open>groups\<close>. For the sample user's key it is the single element
  \<open>plan:free-5-2min\<close>, while \<open>team_id\<close> is the internal id of the team, whose
  \<open>ext_id\<close> is \<open>team-orange\<close>.
\<close>

theorem C3_group_counterexample:
  "IntrospectResponse_Active
     (snd (Introspect demo_km_store (form_body ''AAAAAAAAAAAAAAAAAAAAAAAAAAAAAAAAAAAAAAAAAAA'' []))) \<and>
   km_teams demo_km_store = [km_team_orange] \<and>
   km_Team_ExtID km_team_orange = ''team-orange'' \<and>
   IntrospectResponse_TeamID
     (snd (Introspect demo_km_store (form_body ''AAAAAAAAAAAAAAAAAAAAAAAAAAAAAAAAAAAAAAAAAAA'' [])))
     = ''aaaaaaaa-aaaa-4aaa-8aaa-aaaaaaaaaaaa'' \<and>
   Split_comma (IntrospectResponse_Group
     (snd (Introspect demo_km_store (form_body ''AAAAAAAAAAAAAAAAAAAAAAAAAAAAAAAAAAAAAAAAAAA'' []))))
     = [''plan:free-5-2min''] \<and>
   hd (Split_comma (IntrospectResponse_Group
     (snd (Introspect demo_km_store (form_body ''AAAAAAAAAAAAAAAAAAAAAAAAAAAAAAAAAAAAAAAAAAA'' [])))))
     \<noteq> IntrospectResponse_TeamID
     (snd (Introspect demo_km_store (form_body ''AAAAAAAAAAAAAAAAAAAAAAAAAAAAAAAAAAAAAAAAAAA'' []))) \<and>
   ''team-orange'' \<notin> set (Split_comma (IntrospectResponse_Group
     (snd (Introspect demo_km_store (form_body ''AAAAAAAAAAAAAAAAAAAAAAAAAAAAAAAAAAAAAAAAAAA'' [])))))"
proof -
  have a: "km_teams demo_km_store = [km_team_orange]" by (simp add: demo_km_store_def)
  have b: "km_Team_ExtID km_team_orange = ''team-orange''" by (simp add: km_team_orange_def)
  have c: "Split_comma ''plan:free-5-2min'' = [''plan:free-5-2min'']" by simp
  show ?thesis unfolding eval_alice a b by (simp add: c del: Split_comma.simps)
qed

text \<open>
  Claim C3, as the code has it. Every successful introspection (\<open>active = true\<close>)
  carries a \<open>group\<close> claim that is \<open>plan:\<close> followed by the name of the default
  policy of the credential's team, so the first comma-separated element of the group
  starts with \<open>plan:\<close>; the returned \<open>team_id\<close> is the credential's \<open>team_id\<close>, the
  internal id of that team, and \<open>policy_id\<close> is the id of that policy.
\<close>

theorem C3_group_claim:
  assumes "IntrospectResponse_Active (snd (Introspect s body))"
  shows "\<exists>req apiKey team policy.
           bind_IntrospectRequest body = Inr req \<and>
           GetAPIKeyByPrefix s (take 8 (IntrospectRequest_Token req)) = Inr apiKey \<and>
           GetTeam s (APIKey_TeamID apiKey) = Inr team \<and>
           km_Team_DefaultPolicyID team = Some (Policy_ID policy) \<and>
           GetPolicy s (Policy_ID policy) = Inr policy \<and>
           fst (Introspect s body) = 200 \<and>
           IntrospectResponse_TeamID (snd (Introspect s body)) = km_Team_ID team \<and>
           IntrospectResponse_TeamID (snd (Introspect s body)) = APIKey_TeamID apiKey \<and>
           IntrospectResponse_Group (snd (Introspect s body)) = ''plan:'' @ Policy_Name policy \<and>
           IntrospectResponse_PolicyID (snd (Introspect s body)) = Policy_ID policy \<and>
           take 5 (hd (Split_comma (IntrospectResponse_Group (snd (Introspect s body))))) = ''plan:''"
proof -
  from Introspect_active [OF assms] obtain req where
    req: "bind_IntrospectRequest body = Inr req" "Introspect s body = resolve_key s req"
      "IntrospectResponse_Active (snd (resolve_key s req))"
    by blast
  from resolve_key_active [OF req(3)] obtain apiKey effectiveUserID team policyID policy where
    k: "GetAPIKeyByPrefix s (take 8 (IntrospectRequest_Token req)) = Inr apiKey"
    and t: "GetTeam s (APIKey_TeamID apiKey) = Inr team"
    and d: "km_Team_DefaultPolicyID team = Some policyID"
    and p: "GetPolicy s policyID = Inr policy"
    and r: "resolve_key s req =
             (200, \<lparr>IntrospectResponse_Active = True,
                    IntrospectResponse_APIKeyID = APIKey_ID apiKey,
                    IntrospectResponse_TeamID = APIKey_TeamID apiKey,
                    IntrospectResponse_UserID =
                      (case effectiveUserID of Some u \<Rightarrow> u | None \<Rightarrow> []),
                    IntrospectResponse_Group = ''plan:'' @ Policy_Name policy,
                    IntrospectResponse_ModelsAllowed =
                      GetUserModelsAllowed_rows (km_models s) (km_model_grants s)
                        (case effectiveUserID of Some u \<Rightarrow> u | None \<Rightarrow> [])
                        (APIKey_TeamID apiKey),
                    IntrospectResponse_PolicyID = policyID,
                    IntrospectResponse_Error = []\<rparr>)"
    by blast
  have pid: "Policy_ID policy = policyID" by (rule GetPolicy_Inr [OF p])
  have tid: "km_Team_ID team = APIKey_TeamID apiKey" by (rule GetTeam_Inr [OF t])
  have g: "take 5 (hd (Split_comma (''plan:'' @ Policy_Name policy))) = ''plan:''"
    by (rule hd_Split_comma_plan)
  show ?thesis
    apply (rule exI [where x = req], rule exI [where x = apiKey])
    apply (rule exI [where x = team], rule exI [where x = policy])
    using req(1) k t d p pid tid g by (simp add: req(2) r)
qed

theorem C3_group_claim_witness:
  "IntrospectResponse_Active
     (snd (Introspect demo_km_store (form_body ''AAAAAAAAAAAAAAAAAAAAAAAAAAAAAAAAAAAAAAAAAAA'' []))) \<and>
   IntrospectResponse_Group
     (snd (Introspect demo_km_store (form_body ''AAAAAAAAAAAAAAAAAAAAAAAAAAAAAAAAAAAAAAAAAAA'' [])))
     = ''plan:free-5-2min'' \<and>
   take 5 (hd (Split_comma (IntrospectResponse_Group
     (snd (Introspect demo_km_store (form_body ''AAAAAAAAAAAAAAAAAAAAAAAAAAAAAAAAAAAAAAAAAAA'' []))))))
     = ''plan:''"
proof -
  have a: "IntrospectResponse_Active
     (snd (Introspect demo_km_store (form_body ''AAAAAAAAAAAAAAAAAAAAAAAAAAAAAAAAAAAAAAAAAAA'' [])))"
    by (simp add: eval_alice)
  have b: "IntrospectResponse_Group
     (snd (Introspect demo_km_store (form_body ''AAAAAAAAAAAAAAAAAAAAAAAAAAAAAAAAAAAAAAAAAAA'' [])))
     = ''plan:free-5-2min''"
    by (simp add: eval_alice)
  from C3_group_claim [OF a] a b show ?thesis by blast
qed









section \<open>Claims about the deletion of a team\<close>

lemma insert_api_key_teams: "teams (insert_api_key row s) = teams s"
  by (simp add: insert_api_key_def)

lemma insert_api_key_other_team:
  "ak_team_id row \<noteq> teamID \<Longrightarrow>
     filter (\<lambda>k. ak_team_id k = teamID) (api_keys (insert_api_key row s)) =
     filter (\<lambda>k. ak_team_id k = teamID) (api_keys s)"
  by (simp add: insert_api_key_def)

lemma insert_api_key_no_team:
  "\<not> list_ex (\<lambda>t. Team_ID t = ak_team_id row) (teams s) \<Longrightarrow> insert_api_key row s = s"
  by (simp add: insert_api_key_def)

lemma other_sessions_teams: "teams (fst (other_sessions locked rows s)) = teams s"
  by (induction rows arbitrary: s) (auto simp: insert_api_key_teams case_prod_beta)

lemma other_sessions_locked_team:
  "filter (\<lambda>k. ak_team_id k = teamID) (api_keys (fst (other_sessions (Some teamID) rows s))) =
   filter (\<lambda>k. ak_team_id k = teamID) (api_keys s)"
proof (induction rows arbitrary: s)
  case Nil
  show ?case by simp
next
  case (Cons row rows)
  show ?case
  proof (cases "ak_team_id row = teamID")
    case True
    then show ?thesis using Cons.IH [of s] by (simp add: case_prod_beta)
  next
    case False
    then have "Some teamID \<noteq> Some (ak_team_id row)" by auto
    then show ?thesis
      using Cons.IH [of "insert_api_key row s"] insert_api_key_other_team [OF False, of s]
      by simp
  qed
qed

lemma other_sessions_deleted_team:
  assumes "\<not> list_ex (\<lambda>t. Team_ID t = teamID) (teams s)"
    and "\<not> list_ex (\<lambda>k. ak_team_id k = teamID) (api_keys s)"
  shows "\<not> list_ex (\<lambda>k. ak_team_id k = teamID) (api_keys (fst (other_sessions locked rows s)))"
  using assms
proof (induction rows arbitrary: s)
  case Nil
  then show ?case by simp
next
  case (Cons row rows)
  have step: "\<not> list_ex (\<lambda>t. Team_ID t = teamID) (teams (insert_api_key row s)) \<and>
              \<not> list_ex (\<lambda>k. ak_team_id k = teamID) (api_keys (insert_api_key row s))"
    using Cons.prems by (auto simp: insert_api_key_def list_ex_iff)
  show ?case
  proof (cases "locked = Some (ak_team_id row)")
    case True
    then show ?thesis using Cons.IH [OF Cons.prems] by (simp add: case_prod_beta)
  next
    case False
    then show ?thesis using Cons.IH [of "insert_api_key row s"] step by simp
  qed
qed

lemma delete_team_cascade_gone:
  "\<not> list_ex (\<lambda>t. Team_ID t = teamID) (teams (delete_team_cascade teamID s))"
  "\<not> list_ex (\<lambda>k. ak_team_id k = teamID) (api_keys (delete_team_cascade teamID s))"
  by (simp_all add: delete_team_cascade_def list_ex_iff)


lemma store_at_delete_alone: "store_at_delete s teamID alone = s"
  by (simp add: store_at_delete_def alone_def)

lemma DeleteTeam_Inr:
  assumes "DeleteTeam s teamID others = (Inr result, s')"
  shows "DeleteTeamResult_TeamID result = teamID \<and>
         list_ex (\<lambda>t. Team_ID t = teamID) (teams s) \<and>
         DeleteTeamResult_CascadedKeyCount result =
           length (filter (\<lambda>k. ak_team_id k = teamID) (api_keys (store_at_delete s teamID others))) \<and>
         \<not> list_ex (\<lambda>k. ak_team_id k = teamID) (api_keys s') \<and>
         \<not> list_ex (\<lambda>t. Team_ID t = teamID) (teams s')"
proof -
  obtain team where team: "find (\<lambda>t. Team_ID t = teamID) (teams s) = Some team"
    using assms by (auto simp: DeleteTeam_def split: option.splits)
  obtain s1 w1 where o1: "other_sessions (Some teamID) (after_lock others) s = (s1, w1)"
    by (cases "other_sessions (Some teamID) (after_lock others) s")
  obtain s2 w2 where o2: "other_sessions (Some teamID) (after_count others) s1 = (s2, w2)"
    by (cases "other_sessions (Some teamID) (after_count others) s1")
  obtain s4 w3 where o3: "other_sessions (Some teamID) (after_delete others)
                            (delete_team_cascade teamID s2) = (s4, w3)"
    by (cases "other_sessions (Some teamID) (after_delete others) (delete_team_cascade teamID s2)")
  from assms team o1 o2 o3 have
    res: "result = \<lparr>DeleteTeamResult_TeamID = teamID,
                    DeleteTeamResult_ExtID = Team_ExtID team,
                    DeleteTeamResult_Name = Team_Name team,
                    DeleteTeamResult_CascadedKeyCount =
                      length (filter (\<lambda>k. ak_team_id k = teamID) (api_keys s1))\<rparr>"
    and s': "s' = fst (other_sessions None (w1 @ w2 @ w3) s4)"
    by (simp_all add: DeleteTeam_def Let_def)
  have sd: "store_at_delete s teamID others = s2"
    by (simp add: store_at_delete_def o1 o2)
  have c: "filter (\<lambda>k. ak_team_id k = teamID) (api_keys s2) =
           filter (\<lambda>k. ak_team_id k = teamID) (api_keys s1)"
    using other_sessions_locked_team [of teamID "after_count others" s1] by (simp add: o2)
  have g4: "\<not> list_ex (\<lambda>t. Team_ID t = teamID) (teams s4)"
    using other_sessions_teams [of "Some teamID" "after_delete others" "delete_team_cascade teamID s2"]
      delete_team_cascade_gone(1) [of teamID s2] by (simp add: o3)
  have k4: "\<not> list_ex (\<lambda>k. ak_team_id k = teamID) (api_keys s4)"
    using other_sessions_deleted_team [of teamID "delete_team_cascade teamID s2" "Some teamID"
        "after_delete others"] delete_team_cascade_gone [of teamID s2] by (simp add: o3)
  have k5: "\<not> list_ex (\<lambda>k. ak_team_id k = teamID) (api_keys s')"
    unfolding s' by (rule other_sessions_deleted_team [OF g4 k4])
  have g5: "\<not> list_ex (\<lambda>t. Team_ID t = teamID) (teams s')"
    unfolding s' using g4 by (simp add: other_sessions_teams)
  have ex: "list_ex (\<lambda>t. Team_ID t = teamID) (teams s)"
    using team by (auto simp: find_Some_iff list_ex_iff)
  show ?thesis using res sd c k5 g5 ex by simp
qed





section \<open>Claims about the synchronisation of the rate limit policy\<close>

lemma CreateTeam_Inr:
  assumes "CreateTeam e s teamUUID now extID name description rateLimit rateWindow rateLimitSpec =
             (Inr team, s')"
  shows "s' = s\<lparr>teams := teams s @ [team]\<rparr>"
  using assms unfolding CreateTeam_def Let_def
  by (auto split: if_splits option.splits)

lemma UpdateTeam_Inr:
  assumes "UpdateTeam e s now teamID name description rateLimit rateWindow = (Inr team, s')"
  shows "team \<in> set (teams s')"
proof -
  obtain teamUUID where p: "uuid_Parse e teamID = Some teamUUID"
    using assms by (auto simp: UpdateTeam_def split: option.splits)
  obtain t where f: "find (\<lambda>t. Team_ID t = teamUUID) (teams s) = Some t"
    using assms p by (auto simp: UpdateTeam_def split: option.splits if_splits)
  from assms p f have
    team: "team = apply_update name description rateLimit rateWindow now t" and
    s': "s' = s\<lparr>teams := map (\<lambda>u. if Team_ID u = teamUUID then team else u) (teams s)\<rparr>"
    by (auto simp: UpdateTeam_def Let_def split: if_splits)
  from f have "t \<in> set (teams s)" "Team_ID t = teamUUID"
    by (auto simp: find_Some_iff)
  then have "(\<lambda>u. if Team_ID u = teamUUID then team else u) t \<in>
             set (map (\<lambda>u. if Team_ID u = teamUUID then team else u) (teams s))"
    by (intro imageI [of t "set (teams s)", folded set_map])
  then show ?thesis using \<open>Team_ID t = teamUUID\<close> by (simp add: s')
qed

lemma CreateTeam_any_policy_manager:
  "fst (TeamsHandler_CreateTeam e policyMgr teamUUID now decoded s) =
     fst (TeamsHandler_CreateTeam e None teamUUID now decoded s) \<and>
   fst (snd (TeamsHandler_CreateTeam e policyMgr teamUUID now decoded s)) =
     fst (snd (TeamsHandler_CreateTeam e None teamUUID now decoded s))"
  unfolding TeamsHandler_CreateTeam_def Let_def
  by (simp split: sum.splits prod.splits)

lemma UpdateTeam_any_policy_manager:
  "fst (TeamsHandler_UpdateTeam e policyMgr now teamID decoded s) =
     fst (TeamsHandler_UpdateTeam e None now teamID decoded s) \<and>
   fst (snd (TeamsHandler_UpdateTeam e policyMgr now teamID decoded s)) =
     fst (snd (TeamsHandler_UpdateTeam e None now teamID decoded s))"
  unfolding TeamsHandler_UpdateTeam_def
  by (simp split: sum.splits prod.splits)

lemma DeleteTeam_any_policy_manager:
  "fst (TeamsHandler_DeleteTeam e policyMgr userID teamRef others s) =
     fst (TeamsHandler_DeleteTeam e None userID teamRef others s) \<and>
   fst (snd (TeamsHandler_DeleteTeam e policyMgr userID teamRef others s)) =
     fst (snd (TeamsHandler_DeleteTeam e None userID teamRef others s))"
  unfolding TeamsHandler_DeleteTeam_def
  by (simp split: sum.splits prod.splits)

lemma CreateTeam_sync_fails:
  assumes "bind_CreateTeamRequest decoded = Inr req0"
    and "CreateTeam e s teamUUID now (CreateTeamRequest_ExtID (set_defaults req0))
           (CreateTeamRequest_Name (set_defaults req0))
           (CreateTeamRequest_Description (set_defaults req0))
           (CreateTeamRequest_RateLimit (set_defaults req0))
           (CreateTeamRequest_RateWindow (set_defaults req0))
           (CreateTeamRequest_RateLimitSpec (set_defaults req0)) = (Inr team, s')"
    and "AddTeamToTokenRateLimit pm (Team_ExtID team) (Team_RateLimit team)
           (Team_RateWindow team) = Some err"
  shows "TeamsHandler_CreateTeam e (Some pm) teamUUID now decoded s =
           ((200, Inr \<lparr>CreateTeamResponse_ID = Team_ID team,
                       CreateTeamResponse_ExtID = Team_ExtID team,
                       CreateTeamResponse_Name = Team_Name team,
                       CreateTeamResponse_Description = Team_Description team,
                       CreateTeamResponse_RateLimit = Team_RateLimit team,
                       CreateTeamResponse_RateWindow = Team_RateWindow team,
                       CreateTeamResponse_RateLimitSpec = Team_RateLimitSpec team,
                       CreateTeamResponse_CreatedAt = Team_CreatedAt team\<rparr>),
            s', [''CreateTeam: Warning - Failed to sync rate limits to Kuadrant: '' @ err])"
  unfolding TeamsHandler_CreateTeam_def Let_def sync_rate_limits_def
  using assms by (simp add: Let_def)

lemma UpdateTeam_sync_fails:
  assumes "resolveTeamRef e s teamID = Inr currentTeam"
    and "UpdateTeam e s now (Team_ID currentTeam) (UpdateTeamRequest_TeamName req)
           (UpdateTeamRequest_Description req) (UpdateTeamRequest_RateLimit req)
           (UpdateTeamRequest_RateWindow req) = (Inr team, s')"
    and "rateChanged req currentTeam"
    and "AddTeamToTokenRateLimit pm (Team_ExtID team) (Team_RateLimit team)
           (Team_RateWindow team) = Some err"
  shows "TeamsHandler_UpdateTeam e (Some pm) now teamID (Inr req) s =
           ((200, Inr team), s',
            [''UpdateTeam: Warning - Failed to sync updated rate limits to Kuadrant: '' @ err])"
  unfolding TeamsHandler_UpdateTeam_def sync_rate_limits_def
  using assms by simp

lemma DeleteTeam_cleanup_fails:
  assumes "resolveTeamRef e s teamRef = Inr team"
    and "DeleteTeam s (Team_ID team) others = (Inr result, s')"
    and "RemoveTeamFromTokenRateLimit pm (DeleteTeamResult_ExtID result) = Some err"
  shows "TeamsHandler_DeleteTeam e (Some pm) userID teamRef others s =
           ((200, Inr \<lparr>DeleteTeamBody_team_id = DeleteTeamResult_TeamID result,
                       DeleteTeamBody_ext_id = DeleteTeamResult_ExtID result,
                       DeleteTeamBody_name = DeleteTeamResult_Name result,
                       DeleteTeamBody_cascaded_key_count =
                         DeleteTeamResult_CascadedKeyCount result,
                       DeleteTeamBody_deleted_by = userID\<rparr>),
            s', [''DeleteTeam: Warning - Failed to remove team '' @ DeleteTeamResult_ExtID result @
                 '' from TokenRateLimitPolicy: '' @ err])"
  unfolding TeamsHandler_DeleteTeam_def cleanup_rate_limits_def
  using assms by simp

text \<open>
  C9. For each of the three handlers: if the repository call succeeds and the call of
  the policy manager that follows returns an error, the handler answers 200 with the
  row the repository returned, leaves the store as the repository call left it (the
  created or updated team is in the table, the deleted team is not) and writes the
  warning with the error into the log. (On an update the policy manager is called
  only when the request changes the rate limit or the window.) Moreover the reply
  and the store of each handler are the same for every policy manager, whatever its
  calls return, as for a handler without one.
\<close>

theorem C9_reconciliation_failure:
  "(bind_CreateTeamRequest decoded = Inr req0 \<longrightarrow>
    CreateTeam e s teamUUID now (CreateTeamRequest_ExtID (set_defaults req0))
      (CreateTeamRequest_Name (set_defaults req0))
      (CreateTeamRequest_Description (set_defaults req0))
      (CreateTeamRequest_RateLimit (set_defaults req0))
      (CreateTeamRequest_RateWindow (set_defaults req0))
      (CreateTeamRequest_RateLimitSpec (set_defaults req0)) = (Inr created, s_created) \<longrightarrow>
    AddTeamToTokenRateLimit pm (Team_ExtID created) (Team_RateLimit created)
      (Team_RateWindow created) = Some err \<longrightarrow>
    TeamsHandler_CreateTeam e (Some pm) teamUUID now decoded s =
      ((200, Inr \<lparr>CreateTeamResponse_ID = Team_ID created,
                  CreateTeamResponse_ExtID = Team_ExtID created,
                  CreateTeamResponse_Name = Team_Name created,
                  CreateTeamResponse_Description = Team_Description created,
                  CreateTeamResponse_RateLimit = Team_RateLimit created,
                  CreateTeamResponse_RateWindow = Team_RateWindow created,
                  CreateTeamResponse_RateLimitSpec = Team_RateLimitSpec created,
                  CreateTeamResponse_CreatedAt = Team_CreatedAt created\<rparr>),
       s_created, [''CreateTeam: Warning - Failed to sync rate limits to Kuadrant: '' @ err]) \<and>
    teams s_created = teams s @ [created]) \<and>
   (resolveTeamRef e s teamID = Inr current \<longrightarrow>
    UpdateTeam e s now (Team_ID current) (UpdateTeamRequest_TeamName req)
      (UpdateTeamRequest_Description req) (UpdateTeamRequest_RateLimit req)
      (UpdateTeamRequest_RateWindow req) = (Inr updated, s_updated) \<longrightarrow>
    rateChanged req current \<longrightarrow>
    AddTeamToTokenRateLimit pm (Team_ExtID updated) (Team_RateLimit updated)
      (Team_RateWindow updated) = Some err \<longrightarrow>
    TeamsHandler_UpdateTeam e (Some pm) now teamID (Inr req) s =
      ((200, Inr updated), s_updated,
       [''UpdateTeam: Warning - Failed to sync updated rate limits to Kuadrant: '' @ err]) \<and>
    updated \<in> set (teams s_updated)) \<and>
   (resolveTeamRef e s teamRef = Inr target \<longrightarrow>
    DeleteTeam s (Team_ID target) others = (Inr result, s_deleted) \<longrightarrow>
    RemoveTeamFromTokenRateLimit pm (DeleteTeamResult_ExtID result) = Some err \<longrightarrow>
    TeamsHandler_DeleteTeam e (Some pm) userID teamRef others s =
      ((200, Inr \<lparr>DeleteTeamBody_team_id = DeleteTeamResult_TeamID result,
                  DeleteTeamBody_ext_id = DeleteTeamResult_ExtID result,
                  DeleteTeamBody_name = DeleteTeamResult_Name result,
                  DeleteTeamBody_cascaded_key_count = DeleteTeamResult_CascadedKeyCount result,
                  DeleteTeamBody_deleted_by = userID\<rparr>),
       s_deleted,
       [''DeleteTeam: Warning - Failed to remove team '' @ DeleteTeamResult_ExtID result @
        '' from TokenRateLimitPolicy: '' @ err]) \<and>
    \<not> list_ex (\<lambda>t. Team_ID t = Team_ID target) (teams s_deleted)) \<and>
   fst (TeamsHandler_CreateTeam e policyMgr teamUUID now decoded s) =
     fst (TeamsHandler_CreateTeam e None teamUUID now decoded s) \<and>
   fst (snd (TeamsHandler_CreateTeam e policyMgr teamUUID now decoded s)) =
     fst (snd (TeamsHandler_CreateTeam e None teamUUID now decoded s)) \<and>
   fst (TeamsHandler_UpdateTeam e policyMgr now teamID patch s) =
     fst (TeamsHandler_UpdateTeam e None now teamID patch s) \<and>
   fst (snd (TeamsHandler_UpdateTeam e policyMgr now teamID patch s)) =
     fst (snd (TeamsHandler_UpdateTeam e None now teamID patch s)) \<and>
   fst (TeamsHandler_DeleteTeam e policyMgr userID teamRef others s) =
     fst (TeamsHandler_DeleteTeam e None userID teamRef others s) \<and>
   fst (snd (TeamsHandler_DeleteTeam e policyMgr userID teamRef others s)) =
     fst (snd (TeamsHandler_DeleteTeam e None userID teamRef others s))"
proof (intro conjI impI)
  assume "bind_CreateTeamRequest decoded = Inr req0"
    and c: "CreateTeam e s teamUUID now (CreateTeamRequest_ExtID (set_defaults req0))
      (CreateTeamRequest_Name (set_defaults req0))
      (CreateTeamRequest_Description (set_defaults req0))
      (CreateTeamRequest_RateLimit (set_defaults req0))
      (CreateTeamRequest_RateWindow (set_defaults req0))
      (CreateTeamRequest_RateLimitSpec (set_defaults req0)) = (Inr created, s_created)"
    and "AddTeamToTokenRateLimit pm (Team_ExtID created) (Team_RateLimit created)
      (Team_RateWindow created) = Some err"
  then show "TeamsHandler_CreateTeam e (Some pm) teamUUID now decoded s =
      ((200, Inr \<lparr>CreateTeamResponse_ID = Team_ID created,
                  CreateTeamResponse_ExtID = Team_ExtID created,
                  CreateTeamResponse_Name = Team_Name created,
                  CreateTeamResponse_Description = Team_Description created,
                  CreateTeamResponse_RateLimit = Team_RateLimit created,
                  CreateTeamResponse_RateWindow = Team_RateWindow created,
                  CreateTeamResponse_RateLimitSpec = Team_RateLimitSpec created,
                  CreateTeamResponse_CreatedAt = Team_CreatedAt created\<rparr>),
       s_created, [''CreateTeam: Warning - Failed to sync rate limits to Kuadrant: '' @ err])"
    by (rule CreateTeam_sync_fails)
  show "teams s_created = teams s @ [created]"
    using CreateTeam_Inr [OF c] by simp
next
  assume "resolveTeamRef e s teamID = Inr current"
    and u: "UpdateTeam e s now (Team_ID current) (UpdateTeamRequest_TeamName req)
      (UpdateTeamRequest_Description req) (UpdateTeamRequest_RateLimit req)
      (UpdateTeamRequest_RateWindow req) = (Inr updated, s_updated)"
    and "rateChanged req current"
    and "AddTeamToTokenRateLimit pm (Team_ExtID updated) (Team_RateLimit updated)
      (Team_RateWindow updated) = Some err"
  then show "TeamsHandler_UpdateTeam e (Some pm) now teamID (Inr req) s =
      ((200, Inr updated), s_updated,
       [''UpdateTeam: Warning - Failed to sync updated rate limits to Kuadrant: '' @ err])"
    by (rule UpdateTeam_sync_fails)
  show "updated \<in> set (teams s_updated)"
    by (rule UpdateTeam_Inr [OF u])
next
  assume "resolveTeamRef e s teamRef = Inr target"
    and d: "DeleteTeam s (Team_ID target) others = (Inr result, s_deleted)"
    and "RemoveTeamFromTokenRateLimit pm (DeleteTeamResult_ExtID result) = Some err"
  then show "TeamsHandler_DeleteTeam e (Some pm) userID teamRef others s =
      ((200, Inr \<lparr>DeleteTeamBody_team_id = DeleteTeamResult_TeamID result,
                  DeleteTeamBody_ext_id = DeleteTeamResult_ExtID result,
                  DeleteTeamBody_name = DeleteTeamResult_Name result,
                  DeleteTeamBody_cascaded_key_count = DeleteTeamResult_CascadedKeyCount result,
                  DeleteTeamBody_deleted_by = userID\<rparr>),
       s_deleted,
       [''DeleteTeam: Warning - Failed to remove team '' @ DeleteTeamResult_ExtID result @
        '' from TokenRateLimitPolicy: '' @ err])"
    by (rule DeleteTeam_cleanup_fails)
  show "\<not> list_ex (\<lambda>t. Team_ID t = Team_ID target) (teams s_deleted)"
    using DeleteTeam_Inr [OF d] by simp
qed (rule CreateTeam_any_policy_manager [THEN conjunct1]
         CreateTeam_any_policy_manager [THEN conjunct2]
         UpdateTeam_any_policy_manager [THEN conjunct1]
         UpdateTeam_any_policy_manager [THEN conjunct2]
         DeleteTeam_any_policy_manager [THEN conjunct1]
         DeleteTeam_any_policy_manager [THEN conjunct2])+

lemma blue_bind: "bind_CreateTeamRequest (Inr blue_request) = Inr blue_request"
  by (simp add: bind_CreateTeamRequest_def blue_request_def)

lemma blue_create:
  "CreateTeam demo_env demo_store ''bbbbbbbb-0000-4000-8000-bbbbbbbbbbbb'' 2
     (CreateTeamRequest_ExtID (set_defaults blue_request))
     (CreateTeamRequest_Name (set_defaults blue_request))
     (CreateTeamRequest_Description (set_defaults blue_request))
     (CreateTeamRequest_RateLimit (set_defaults blue_request))
     (CreateTeamRequest_RateWindow (set_defaults blue_request))
     (CreateTeamRequest_RateLimitSpec (set_defaults blue_request)) =
   (Inr team_blue, demo_store\<lparr>teams := [team_orange, team_blue]\<rparr>)"
  by (simp add: CreateTeam_def set_defaults_def blue_request_def demo_env_def demo_store_def
      team_orange_def team_blue_def Let_def)

lemma orange_resolve: "resolveTeamRef demo_env demo_store ''team-orange'' = Inr team_orange"
  by (simp add: resolveTeamRef_def GetTeamByExtID_def demo_env_def demo_store_def team_orange_def)

lemma orange_update:
  "UpdateTeam demo_env demo_store 11 (Team_ID team_orange)
     (UpdateTeamRequest_TeamName slower_request) (UpdateTeamRequest_Description slower_request)
     (UpdateTeamRequest_RateLimit slower_request) (UpdateTeamRequest_RateWindow slower_request) =
   (Inr (team_orange\<lparr>Team_RateLimit := 50, Team_UpdatedAt := 11\<rparr>),
    demo_store\<lparr>teams := [team_orange\<lparr>Team_RateLimit := 50, Team_UpdatedAt := 11\<rparr>]\<rparr>)"
  by (simp add: UpdateTeam_def apply_update_def slower_request_def demo_env_def demo_store_def
      team_orange_def Let_def)

lemma orange_changed: "rateChanged slower_request team_orange"
  by (simp add: rateChanged_def slower_request_def team_orange_def)

lemma orange_delete:
  "DeleteTeam demo_store (Team_ID team_orange) alone =
   (Inr \<lparr>DeleteTeamResult_TeamID = ''aaaaaaaa-aaaa-4aaa-8aaa-aaaaaaaaaaaa'',
         DeleteTeamResult_ExtID = ''team-orange'', DeleteTeamResult_Name = ''Orange'',
         DeleteTeamResult_CascadedKeyCount = 1\<rparr>,
    demo_store\<lparr>teams := [], api_keys := []\<rparr>)"
  by (simp add: DeleteTeam_def delete_team_cascade_def alone_def demo_store_def team_orange_def
      demo_key_row_def Let_def)

lemma broken_calls:
  "AddTeamToTokenRateLimit broken_policy_manager extID rateLimit rateWindow = Some ''connection refused''"
  "RemoveTeamFromTokenRateLimit broken_policy_manager extID = Some ''connection refused''"
  by (simp_all add: broken_policy_manager_def)

theorem C9_reconciliation_failure_witness:
  "TeamsHandler_CreateTeam demo_env (Some broken_policy_manager)
     ''bbbbbbbb-0000-4000-8000-bbbbbbbbbbbb'' 2 (Inr blue_request) demo_store =
     ((200, Inr \<lparr>CreateTeamResponse_ID = ''bbbbbbbb-0000-4000-8000-bbbbbbbbbbbb'',
                 CreateTeamResponse_ExtID = ''team-blue'', CreateTeamResponse_Name = ''Blue'',
                 CreateTeamResponse_Description = ''demo'', CreateTeamResponse_RateLimit = 5,
                 CreateTeamResponse_RateWindow = ''2m'', CreateTeamResponse_RateLimitSpec = ''{}'',
                 CreateTeamResponse_CreatedAt = 2\<rparr>),
      demo_store\<lparr>teams := [team_orange, team_blue]\<rparr>,
      [''CreateTeam: Warning - Failed to sync rate limits to Kuadrant: connection refused'']) \<and>
   TeamsHandler_UpdateTeam demo_env (Some broken_policy_manager) 11 ''team-orange''
     (Inr slower_request) demo_store =
     ((200, Inr (team_orange\<lparr>Team_RateLimit := 50, Team_UpdatedAt := 11\<rparr>)),
      demo_store\<lparr>teams := [team_orange\<lparr>Team_RateLimit := 50, Team_UpdatedAt := 11\<rparr>]\<rparr>,
      [''UpdateTeam: Warning - Failed to sync updated rate limits to Kuadrant: connection refused'']) \<and>
   TeamsHandler_DeleteTeam demo_env (Some broken_policy_manager) ''kc-alice'' ''team-orange''
     alone demo_store =
     ((200, Inr \<lparr>DeleteTeamBody_team_id = ''aaaaaaaa-aaaa-4aaa-8aaa-aaaaaaaaaaaa'',
                 DeleteTeamBody_ext_id = ''team-orange'', DeleteTeamBody_name = ''Orange'',
                 DeleteTeamBody_cascaded_key_count = 1,
                 DeleteTeamBody_deleted_by = ''kc-alice''\<rparr>),
      demo_store\<lparr>teams := [], api_keys := []\<rparr>,
      [''DeleteTeam: Warning - Failed to remove team team-orange from TokenRateLimitPolicy: connection refused''])"
proof -
  note a = C9_reconciliation_failure [THEN conjunct1, rule_format,
      OF blue_bind blue_create broken_calls(1), THEN conjunct1]
  note b = C9_reconciliation_failure [THEN conjunct2, THEN conjunct1, rule_format,
      OF orange_resolve orange_update orange_changed broken_calls(1), THEN conjunct1]
  note c = C9_reconciliation_failure [THEN conjunct2, THEN conjunct2, THEN conjunct1, rule_format,
      OF orange_resolve orange_delete broken_calls(2), THEN conjunct1]
  show ?thesis
    using a b c by (simp add: team_blue_def)
qed

end
